theory Spec2Isabelle
  imports Main
begin

unbundle bit_operations_syntax

section \<open>JavaScript values used by the connector\<close>

text \<open>
  A JavaScript string is a sequence of UTF-16 code units. It is modelled as a \<open>string\<close>,
  one \<open>char\<close> per code unit, which covers the code units U+0000 to U+00FF; all literals
  of the connector are ASCII. A value that may be \<open>undefined\<close> is an \<open>option\<close>.
  A thrown exception is the left summand of a result.
\<close>

datatype error = SyntaxError | TypeError | RangeError

subsection \<open>Numerals\<close>

text \<open>The value of a digit character (\<open>0-9\<close>, \<open>a-z\<close>, \<open>A-Z\<close>), as the numeric
  literal grammar and \<open>parseInt\<close> read it.\<close>

definition digitValue :: "char \<Rightarrow> nat option" where
  "digitValue c =
     (let n = (of_char c :: nat) in
      if 48 \<le> n \<and> n \<le> 57 then Some (n - 48)
      else if 97 \<le> n \<and> n \<le> 122 then Some (n - 87)
      else if 65 \<le> n \<and> n \<le> 90 then Some (n - 55)
      else None)"

definition digitIn :: "nat \<Rightarrow> char \<Rightarrow> nat option" where
  "digitIn radix c =
     (case digitValue c of
        None \<Rightarrow> None
      | Some d \<Rightarrow> if d < radix then Some d else None)"

text \<open>The value of a digit sequence in a radix; \<open>None\<close> when a character is not a digit
  of the radix. The empty sequence is handled by the callers.\<close>

fun digitsValue :: "nat \<Rightarrow> nat \<Rightarrow> string \<Rightarrow> nat option" where
  "digitsValue radix acc [] = Some acc"
| "digitsValue radix acc (c # cs) =
     (case digitIn radix c of
        None \<Rightarrow> None
      | Some d \<Rightarrow> digitsValue radix (acc * radix + d) cs)"

definition nonEmptyDigits :: "nat \<Rightarrow> string \<Rightarrow> nat option" where
  "nonEmptyDigits radix s = (if s = [] then None else digitsValue radix 0 s)"

text \<open>\<open>StrWhiteSpaceChar\<close>: TAB, LF, VT, FF, CR, SP and NBSP (the white space and line
  terminator code units below U+0100).\<close>

definition isStrWhiteSpaceChar :: "char \<Rightarrow> bool" where
  "isStrWhiteSpaceChar c = ((of_char c :: nat) \<in> {9, 10, 11, 12, 13, 32, 160})"

definition trimStart :: "string \<Rightarrow> string" where
  "trimStart s = dropWhile isStrWhiteSpaceChar s"

definition trim :: "string \<Rightarrow> string" where
  "trim s = rev (dropWhile isStrWhiteSpaceChar (rev (trimStart s)))"

text \<open>
  \<open>StringToBigInt\<close> of ECMAScript: the string is trimmed; the empty string is \<open>0n\<close>;
  a decimal numeral may carry a sign; \<open>0x\<close>, \<open>0o\<close> and \<open>0b\<close> numerals may not; anything
  else is not a \<open>StringIntegerLiteral\<close> (\<open>None\<close>).
\<close>

definition StringToBigInt :: "string \<Rightarrow> int option" where
  "StringToBigInt str =
     (case trim str of
        [] \<Rightarrow> Some 0
      | c # cs \<Rightarrow>
          if c = CHR ''+'' then map_option int (nonEmptyDigits 10 cs)
          else if c = CHR ''-'' then map_option (\<lambda>n. - int n) (nonEmptyDigits 10 cs)
          else if c = CHR ''0'' \<and> cs \<noteq> [] \<and> hd cs \<in> {CHR ''x'', CHR ''X''}
            then map_option int (nonEmptyDigits 16 (tl cs))
          else if c = CHR ''0'' \<and> cs \<noteq> [] \<and> hd cs \<in> {CHR ''o'', CHR ''O''}
            then map_option int (nonEmptyDigits 8 (tl cs))
          else if c = CHR ''0'' \<and> cs \<noteq> [] \<and> hd cs \<in> {CHR ''b'', CHR ''B''}
            then map_option int (nonEmptyDigits 2 (tl cs))
          else map_option int (nonEmptyDigits 10 (c # cs)))"

text \<open>\<open>BigInt(s)\<close> on a string throws a SyntaxError when \<open>s\<close> is not a literal.\<close>

definition BigInt :: "string \<Rightarrow> error + int" where
  "BigInt str = (case StringToBigInt str of None \<Rightarrow> Inl SyntaxError | Some v \<Rightarrow> Inr v)"

text \<open>The decimal numeral of a natural number, without leading zeros.\<close>

definition digitChar :: "nat \<Rightarrow> char" where
  "digitChar d = ''0123456789'' ! d"

function decimal :: "nat \<Rightarrow> string" where
  "decimal n =
     (if n < 10 then [digitChar n]
      else decimal (n div 10) @ [digitChar (n mod 10)])"
  by pat_completeness auto
termination
  by (relation "measure id") auto

declare decimal.simps [simp del]

text \<open>\<open>BigInt.prototype.toString()\<close> in radix 10.\<close>

definition BigInt_toString :: "int \<Rightarrow> string" where
  "BigInt_toString v =
     (if v < 0 then CHR ''-'' # decimal (nat (- v)) else decimal (nat v))"

text \<open>\<open>String.prototype.padStart(n, c)\<close> with a one-character filler.\<close>

definition padStart :: "nat \<Rightarrow> char \<Rightarrow> string \<Rightarrow> string" where
  "padStart n c s = replicate (n - length s) c @ s"

section \<open>Identifier codec (tokens.util.ts)\<close>

text \<open>\<open>isFungible\<close>: \<open>pool_id[0] === 'F'\<close>; the first character of the empty string is
  \<open>undefined\<close>.\<close>

definition isFungible :: "string \<Rightarrow> bool" where
  "isFungible pool_id = (case pool_id of [] \<Rightarrow> False | c # _ \<Rightarrow> c = CHR ''F'')"

text \<open>\<open>packTokenId(pool_id, token_index = '0')\<close>. BigInt arithmetic is unbounded: \<open><<\<close> is
  \<open>push_bit\<close> and \<open>|\<close> is \<open>OR\<close> on \<open>int\<close>. \<open>pool_id.substr(1)\<close> is \<open>drop 1\<close>.\<close>

definition packTokenId :: "string \<Rightarrow> string option \<Rightarrow> error + string" where
  "packTokenId pool_id token_index_arg =
     (let token_index = (case token_index_arg of None \<Rightarrow> ''0'' | Some t \<Rightarrow> t) in
      case BigInt (drop 1 pool_id) of
        Inl e \<Rightarrow> Inl e
      | Inr pool \<Rightarrow>
          (case BigInt token_index of
             Inl e \<Rightarrow> Inl e
           | Inr idx \<Rightarrow>
               Inr (BigInt_toString
                      (push_bit 255 (if isFungible pool_id then 0 else 1)
                         OR push_bit 128 pool OR idx))))"

record unpacked_token_id =
  uid_isFungible :: bool
  uid_poolId :: string
  uid_tokenIndex :: string

text \<open>\<open>unpackTokenId(id)\<close>: \<open>>>\<close> is \<open>drop_bit\<close> (arithmetic shift) and
  \<open>BigInt.asUintN(n, v)\<close> is \<open>take_bit n v\<close>.\<close>

definition unpackTokenId :: "string \<Rightarrow> error + unpacked_token_id" where
  "unpackTokenId ident =
     (case BigInt ident of
        Inl e \<Rightarrow> Inl e
      | Inr val \<Rightarrow>
          (let isF = (drop_bit 255 val = 0) in
           Inr \<lparr> uid_isFungible = isF,
                 uid_poolId = (if isF then ''F'' else ''N'')
                                @ BigInt_toString (drop_bit 128 (take_bit 255 val)),
                 uid_tokenIndex = BigInt_toString (take_bit 128 val) \<rparr>))"

text \<open>
  \<open>encodeHex\<close> and \<open>decodeHex\<close> go through Node's \<open>Buffer\<close>. The hexadecimal part is
  modelled; the UTF-8 coding of a buffer (bytes as \<open>nat\<close>) can leave the code units
  of this model and is a parameter (see \<open>helpers\<close> below).
  \<open>Buffer.from(s, 'hex')\<close> decodes pairs of hexadecimal digits and stops at the first
  pair that is not one; \<open>String.prototype.replace\<close> with a string pattern replaces the
  first occurrence.
\<close>

fun replaceFirst :: "string \<Rightarrow> string \<Rightarrow> string \<Rightarrow> string" where
  "replaceFirst pat rep [] = (if pat = [] then rep else [])"
| "replaceFirst pat rep (c # cs) =
     (if take (length pat) (c # cs) = pat then rep @ drop (length pat) (c # cs)
      else c # replaceFirst pat rep cs)"

fun bufferFromHex :: "string \<Rightarrow> nat list" where
  "bufferFromHex (a # b # rest) =
     (case (digitIn 16 a, digitIn 16 b) of
        (Some x, Some y) \<Rightarrow> (16 * x + y) # bufferFromHex rest
      | _ \<Rightarrow> [])"
| "bufferFromHex _ = []"

definition hexDigitChar :: "nat \<Rightarrow> char" where
  "hexDigitChar d = ''0123456789abcdef'' ! d"

definition bufferToHex :: "nat list \<Rightarrow> string" where
  "bufferToHex bs = concat (map (\<lambda>b. [hexDigitChar (b div 16), hexDigitChar (b mod 16)]) bs)"

section \<open>Helpers and collaborators that are not part of the sources at hand\<close>

text \<open>
  The service and the listener import \<open>unpackSubscriptionName\<close>, \<open>unpackPoolLocator\<close>,
  \<open>packPoolLocator\<close>, \<open>packSubscriptionName\<close>, \<open>packStreamName\<close>, \<open>encodeHexIDForURI\<close> and
  \<open>topicName\<close> from modules whose text is not available. They are taken as parameters:
  total functions on strings (none of them throws), of which nothing else is assumed.
  The results are the objects the callers read fields from.
\<close>

record subscription_name =
  sn_instancePath :: "string option"
  sn_poolLocator :: "string option"
  sn_event :: "string option"
  sn_poolData :: "string option"

record pool_locator =
  pl_poolId :: string
  pl_address :: "string option"
  pl_blockNumber :: "string option"

record helpers =
  unpackSubscriptionName :: "string \<Rightarrow> subscription_name"
  unpackPoolLocator :: "string \<Rightarrow> pool_locator"
  packPoolLocator :: "string \<Rightarrow> string option \<Rightarrow> string"
  encodeHexIDForURI :: "string \<Rightarrow> string"
  topicName :: "string \<Rightarrow> string option \<Rightarrow> string"
  packStreamName :: "string \<Rightarrow> string \<Rightarrow> string"
  packSubscriptionName :: "string \<Rightarrow> string \<Rightarrow> string \<Rightarrow> string \<Rightarrow> string"
  packSubscriptionName3 :: "string option \<Rightarrow> string \<Rightarrow> string \<Rightarrow> string option \<Rightarrow> string"
  bufferToUtf8 :: "nat list \<Rightarrow> string"
  bufferFromUtf8 :: "string \<Rightarrow> nat list"

text \<open>\<open>packSubscriptionName\<close> is the four-argument form (topic, instance path, pool
  locator, event) of the service that holds the listener; \<open>packSubscriptionName3\<close> is the
  form (instance path, pool locator, event, optional pool data) of the other service.\<close>

definition encodeHex :: "helpers \<Rightarrow> string \<Rightarrow> string" where
  "encodeHex h d = ''0x'' @ bufferToHex (bufferFromUtf8 h d)"

definition decodeHex :: "helpers \<Rightarrow> string \<Rightarrow> string" where
  "decodeHex h d = bufferToUtf8 h (bufferFromHex (replaceFirst ''0x'' '''' d))"

section \<open>Events and notifications\<close>

text \<open>
  The body of a raw event is one of four shapes. The listener reads a raw event as the
  shape its signature names, without a check; a field missing from the shape at hand
  is \<open>undefined\<close>. In a batch member, \<open>value\<close> is \<open>values[i]\<close>, which is \<open>undefined\<close> when
  there are fewer values than ids.
\<close>

record token_pool_creation_data =
  tpc_operator :: string
  tpc_type_id :: string
  tpc_data :: "string option"

record transfer_single_data =
  ts_from :: string
  ts_to :: string
  ts_operator :: string
  ts_id :: string
  ts_value :: "string option"

record transfer_batch_data =
  tb_from :: string
  tb_to :: string
  tb_operator :: string
  tb_ids :: "string list"
  tb_values :: "string list"

record approval_for_all_data =
  afa_account :: "string option"
  afa_operator :: "string option"
  afa_approved :: "bool option"

datatype event_data =
    TokenPoolCreationData token_pool_creation_data
  | TransferSingleData transfer_single_data
  | TransferBatchData transfer_batch_data
  | ApprovalForAllData approval_for_all_data

record 'd event =
  ev_signature :: string
  ev_address :: string
  ev_blockNumber :: "string option"
  ev_transactionIndex :: string
  ev_transactionHash :: string
  ev_logIndex :: "string option"
  ev_timestamp :: string
  ev_data :: 'd
  ev_inputArgs_data :: "string option"

text \<open>\<open>{ ...event, data: d }\<close>\<close>

definition withData :: "'a event \<Rightarrow> 'b \<Rightarrow> 'b event" where
  "withData e d =
     \<lparr> ev_signature = ev_signature e, ev_address = ev_address e,
       ev_blockNumber = ev_blockNumber e, ev_transactionIndex = ev_transactionIndex e,
       ev_transactionHash = ev_transactionHash e, ev_logIndex = ev_logIndex e,
       ev_timestamp = ev_timestamp e, ev_data = d,
       ev_inputArgs_data = ev_inputArgs_data e \<rparr>"

record blockchain_info =
  bi_blockNumber :: "string option"
  bi_transactionIndex :: string
  bi_transactionHash :: string
  bi_logIndex :: "string option"
  bi_address :: string
  bi_signature :: string

record blockchain_event =
  bc_id :: string
  bc_name :: string
  bc_location :: string
  bc_signature :: string
  bc_timestamp :: string
  bc_output :: event_data
  bc_info :: blockchain_info

datatype token_type = FUNGIBLE | NONFUNGIBLE

record token_pool_event =
  tp_standard :: string
  tp_poolLocator :: string
  tp_type :: token_type
  tp_signer :: string
  tp_data :: string
  tp_info_address :: string
  tp_info_typeId :: string
  tp_blockchain :: blockchain_event

text \<open>\<open>TokenTransferEvent\<close>, also used for \<open>TokenMintEvent\<close> (no \<open>from\<close>) and
  \<open>TokenBurnEvent\<close> (no \<open>to\<close>).\<close>

record token_transfer_event =
  tt_id :: string
  tt_poolLocator :: string
  tt_tokenIndex :: string
  tt_uri :: "string option"
  tt_amount :: "string option"
  tt_signer :: string
  tt_data :: string
  tt_blockchain :: blockchain_event
  tt_from :: "string option"
  tt_to :: "string option"

record token_approval_event =
  ta_id :: string
  ta_subject :: string
  ta_poolLocator :: string
  ta_operator :: "string option"
  ta_approved :: "bool option"
  ta_signer :: "string option"
  ta_data :: string
  ta_blockchain :: blockchain_event

datatype message_data =
    TokenPool token_pool_event
  | TokenTransfer token_transfer_event
  | TokenApproval token_approval_event

record message =
  msg_event :: string
  msg_data :: message_data

section \<open>The token service and its listener (tokens.service.ts)\<close>

definition TOKEN_STANDARD :: string where
  "TOKEN_STANDARD = ''ERC1155''"

definition ZERO_ADDRESS :: string where
  "ZERO_ADDRESS = ''0x0000000000000000000000000000000000000000''"

definition BASE_SUBSCRIPTION_NAME :: string where
  "BASE_SUBSCRIPTION_NAME = ''base''"

definition tokenCreateEvent :: string where
  "tokenCreateEvent = ''TokenPoolCreation''"

definition tokenCreateEventSignatureOld :: string where
  "tokenCreateEventSignatureOld = ''TokenCreate(address,uint256,bytes)''"

definition tokenCreateEventSignature :: string where
  "tokenCreateEventSignature = ''TokenPoolCreation(address,uint256,bytes)''"

definition transferSingleEvent :: string where
  "transferSingleEvent = ''TransferSingle''"

definition transferSingleEventSignature :: string where
  "transferSingleEventSignature = ''TransferSingle(address,address,address,uint256,uint256)''"

definition transferBatchEvent :: string where
  "transferBatchEvent = ''TransferBatch''"

definition transferBatchEventSignature :: string where
  "transferBatchEventSignature =
     ''TransferBatch(address,address,address,uint256[],uint256[])''"

definition approvalForAllEvent :: string where
  "approvalForAllEvent = ''ApprovalForAll''"

definition approvalForAllEventSignature :: string where
  "approvalForAllEventSignature = ''ApprovalForAll(address,address,bool)''"

definition ALL_SUBSCRIBED_EVENTS :: "string list" where
  "ALL_SUBSCRIBED_EVENTS =
     [tokenCreateEvent, transferSingleEvent, transferBatchEvent, approvalForAllEvent]"

subsection \<open>The listener\<close>

text \<open>
  \<open>formatBlockchainEventId\<close>: \<open>BigInt(event.transactionIndex)\<close> throws on a string that is
  not an integer literal.
\<close>

definition join3 :: "string \<Rightarrow> string \<Rightarrow> string \<Rightarrow> string" where
  "join3 a b c = a @ ''/'' @ b @ ''/'' @ c"

definition formatBlockchainEventId :: "'d event \<Rightarrow> error + string" where
  "formatBlockchainEventId e =
     (let blockNumber = (case ev_blockNumber e of None \<Rightarrow> ''0'' | Some b \<Rightarrow> b) in
      case BigInt (ev_transactionIndex e) of
        Inl err \<Rightarrow> Inl err
      | Inr tx \<Rightarrow>
          (let txIndex = BigInt_toString tx;
               logIndex = (case ev_logIndex e of None \<Rightarrow> ''0'' | Some l \<Rightarrow> l)
           in Inr (join3 (padStart 12 CHR ''0'' blockNumber)
                         (padStart 6 CHR ''0'' txIndex)
                         (padStart 6 CHR ''0'' logIndex))))"

text \<open>\<open>signature.substring(0, signature.indexOf('('))\<close>: without a parenthesis the index
  is \<open>-1\<close> and the substring is empty.\<close>

definition stripParamsFromSignature :: "string \<Rightarrow> string" where
  "stripParamsFromSignature s =
     (if CHR ''('' \<in> set s then takeWhile (\<lambda>c. c \<noteq> CHR ''('') s else [])"

text \<open>The provenance envelope, written out in each transform of the source.\<close>

definition blockchainInfo :: "'d event \<Rightarrow> blockchain_info" where
  "blockchainInfo e =
     \<lparr> bi_blockNumber = ev_blockNumber e, bi_transactionIndex = ev_transactionIndex e,
       bi_transactionHash = ev_transactionHash e, bi_logIndex = ev_logIndex e,
       bi_address = ev_address e, bi_signature = ev_signature e \<rparr>"

definition blockchainEvent :: "'d event \<Rightarrow> string \<Rightarrow> event_data \<Rightarrow> blockchain_event" where
  "blockchainEvent e eventId output =
     \<lparr> bc_id = eventId, bc_name = stripParamsFromSignature (ev_signature e),
       bc_location = ''address='' @ ev_address e, bc_signature = ev_signature e,
       bc_timestamp = ev_timestamp e, bc_output = output, bc_info = blockchainInfo e \<rparr>"

text \<open>
  The listener caches the URI pattern. \<open>service.query\<close> goes to the chain client: the
  outcome of the \<open>k\<close>-th query is the parameter \<open>query k\<close>, \<open>None\<close> when it is rejected.
  The replacement text is a hexadecimal numeral, without replacement patterns.
\<close>

record token_listener =
  uriPattern :: "string option"
  queries :: nat

definition getTokenUri ::
  "helpers \<Rightarrow> (nat \<Rightarrow> string option) \<Rightarrow> token_listener \<Rightarrow> string \<Rightarrow> token_listener \<times> string"
where
  "getTokenUri h query l ident =
     (case uriPattern l of
        Some p \<Rightarrow> (l, replaceFirst ''{id}'' (encodeHexIDForURI h ident) p)
      | None \<Rightarrow>
          (case query (queries l) of
             None \<Rightarrow> (l\<lparr> queries := Suc (queries l) \<rparr>, '''')
           | Some output \<Rightarrow>
               (l\<lparr> uriPattern := Some output, queries := Suc (queries l) \<rparr>,
                replaceFirst ''{id}'' (encodeHexIDForURI h ident) output)))"

definition transformTokenPoolCreationEvent ::
  "helpers \<Rightarrow> string \<Rightarrow> token_pool_creation_data event \<Rightarrow> error + message option"
where
  "transformTokenPoolCreationEvent h subName e =
     (let output = ev_data e in
      case unpackTokenId (tpc_type_id output) of
        Inl err \<Rightarrow> Inl err
      | Inr unpackedId \<Rightarrow>
          (let unpackedSub = unpackSubscriptionName h subName;
               decodedData = decodeHex h (case tpc_data output of None \<Rightarrow> '''' | Some d \<Rightarrow> d)
           in case sn_poolLocator unpackedSub of
                None \<Rightarrow> Inr None
              | Some loc \<Rightarrow>
                  (let poolLocator = unpackPoolLocator h loc in
                   if pl_poolId poolLocator \<noteq> BASE_SUBSCRIPTION_NAME
                        \<and> pl_poolId poolLocator \<noteq> uid_poolId unpackedId
                   then Inr None
                   else
                     (case formatBlockchainEventId e of
                        Inl err \<Rightarrow> Inl err
                      | Inr eventId \<Rightarrow>
                          Inr (Some
                            \<lparr> msg_event = ''token-pool'',
                              msg_data = TokenPool
                                \<lparr> tp_standard = TOKEN_STANDARD,
                                  tp_poolLocator =
                                    packPoolLocator h (uid_poolId unpackedId) (ev_blockNumber e),
                                  tp_type = (if uid_isFungible unpackedId
                                             then FUNGIBLE else NONFUNGIBLE),
                                  tp_signer = tpc_operator output,
                                  tp_data = decodedData,
                                  tp_info_address = ev_address e,
                                  tp_info_typeId =
                                    ''0x'' @ encodeHexIDForURI h (tpc_type_id output),
                                  tp_blockchain =
                                    blockchainEvent e eventId (TokenPoolCreationData output)
                                \<rparr> \<rparr>)))))"

definition transformTransferSingleEvent ::
  "helpers \<Rightarrow> (nat \<Rightarrow> string option) \<Rightarrow> token_listener \<Rightarrow> string
     \<Rightarrow> transfer_single_data event \<Rightarrow> nat option
     \<Rightarrow> token_listener \<times> (error + message option)"
where
  "transformTransferSingleEvent h query l subName e eventIndex =
     (let output = ev_data e in
      case unpackTokenId (ts_id output) of
        Inl err \<Rightarrow> (l, Inl err)
      | Inr unpackedId \<Rightarrow>
          (let unpackedSub = unpackSubscriptionName h subName;
               decodedData =
                 decodeHex h (case ev_inputArgs_data e of None \<Rightarrow> '''' | Some d \<Rightarrow> d)
           in case sn_poolLocator unpackedSub of
                None \<Rightarrow> (l, Inr None)
              | Some loc \<Rightarrow>
                  (let poolLocator = unpackPoolLocator h loc in
                   if pl_poolId poolLocator \<noteq> uid_poolId unpackedId then (l, Inr None)
                   else if ts_from output = ZERO_ADDRESS \<and> ts_to output = ZERO_ADDRESS
                   then (l, Inr None)
                   else
                     (let (l', uri) =
                            (if uid_isFungible unpackedId then (l, None)
                             else map_prod id Some (getTokenUri h query l (ts_id output)))
                      in case formatBlockchainEventId e of
                           Inl err \<Rightarrow> (l', Inl err)
                         | Inr eventId \<Rightarrow>
                             (let transferId =
                                    (case eventIndex of
                                       None \<Rightarrow> eventId
                                     | Some i \<Rightarrow>
                                         eventId @ ''/'' @ padStart 6 CHR ''0'' (decimal i));
                                  commonData =
                                    \<lparr> tt_id = transferId,
                                      tt_poolLocator = loc,
                                      tt_tokenIndex = uid_tokenIndex unpackedId,
                                      tt_uri = uri,
                                      tt_amount = ts_value output,
                                      tt_signer = ts_operator output,
                                      tt_data = decodedData,
                                      tt_blockchain =
                                        blockchainEvent e eventId (TransferSingleData output),
                                      tt_from = None,
                                      tt_to = None \<rparr>
                              in if ts_from output = ZERO_ADDRESS then
                                   (l', Inr (Some
                                      \<lparr> msg_event = ''token-mint'',
                                        msg_data = TokenTransfer
                                          (commonData\<lparr> tt_to := Some (ts_to output) \<rparr>) \<rparr>))
                                 else if ts_to output = ZERO_ADDRESS then
                                   (l', Inr (Some
                                      \<lparr> msg_event = ''token-burn'',
                                        msg_data = TokenTransfer
                                          (commonData\<lparr> tt_from := Some (ts_from output) \<rparr>) \<rparr>))
                                 else
                                   (l', Inr (Some
                                      \<lparr> msg_event = ''token-transfer'',
                                        msg_data = TokenTransfer
                                          (commonData\<lparr> tt_from := Some (ts_from output),
                                                       tt_to := Some (ts_to output) \<rparr>) \<rparr>)))))))"

text \<open>\<open>values[i]\<close>\<close>

definition nthOpt :: "'a list \<Rightarrow> nat \<Rightarrow> 'a option" where
  "nthOpt xs i = (if i < length xs then Some (xs ! i) else None)"

text \<open>The member of a batch event at index \<open>i\<close>, as the loop builds it.\<close>

definition batchMember :: "transfer_batch_data event \<Rightarrow> nat \<Rightarrow> transfer_single_data event" where
  "batchMember e i =
     withData e
       \<lparr> ts_from = tb_from (ev_data e), ts_to = tb_to (ev_data e),
         ts_operator = tb_operator (ev_data e), ts_id = tb_ids (ev_data e) ! i,
         ts_value = nthOpt (tb_values (ev_data e)) i \<rparr>"

text \<open>The loop of \<open>transformTransferBatchEvent\<close>, from index \<open>i\<close> with the messages
  collected so far. An exception of a member ends the loop and the transform.\<close>

function transformTransferBatchLoop ::
  "helpers \<Rightarrow> (nat \<Rightarrow> string option) \<Rightarrow> string \<Rightarrow> transfer_batch_data event
     \<Rightarrow> nat \<Rightarrow> token_listener \<Rightarrow> message list
     \<Rightarrow> token_listener \<times> (error + message list)"
where
  "transformTransferBatchLoop h query subName e i l messages =
     (if i < length (tb_ids (ev_data e)) then
        (case transformTransferSingleEvent h query l subName (batchMember e i) (Some i) of
           (l', Inl err) \<Rightarrow> (l', Inl err)
         | (l', Inr None) \<Rightarrow>
             transformTransferBatchLoop h query subName e (Suc i) l' messages
         | (l', Inr (Some m)) \<Rightarrow>
             transformTransferBatchLoop h query subName e (Suc i) l' (messages @ [m]))
      else (l, Inr messages))"
  by pat_completeness auto
termination
  by (relation "measure (\<lambda>(h, query, subName, e, i, l, messages).
        length (tb_ids (ev_data e)) - i)") auto

declare transformTransferBatchLoop.simps [simp del]

definition transformTransferBatchEvent ::
  "helpers \<Rightarrow> (nat \<Rightarrow> string option) \<Rightarrow> token_listener \<Rightarrow> string
     \<Rightarrow> transfer_batch_data event \<Rightarrow> token_listener \<times> (error + message list)"
where
  "transformTransferBatchEvent h query l subName e =
     transformTransferBatchLoop h query subName e 0 l []"

text \<open>\<open>`${output.account}:${output.operator}`\<close>: an undefined field prints as
  \<open>undefined\<close>.\<close>

definition templateString :: "string option \<Rightarrow> string" where
  "templateString v = (case v of None \<Rightarrow> ''undefined'' | Some s \<Rightarrow> s)"

definition transformApprovalForAllEvent ::
  "helpers \<Rightarrow> string \<Rightarrow> event_data event \<Rightarrow> approval_for_all_data
     \<Rightarrow> error + message option"
where
  "transformApprovalForAllEvent h subName e output =
     (let unpackedSub = unpackSubscriptionName h subName;
          decodedData =
            decodeHex h (case ev_inputArgs_data e of None \<Rightarrow> '''' | Some d \<Rightarrow> d)
      in case sn_poolLocator unpackedSub of
           None \<Rightarrow> Inr None
         | Some loc \<Rightarrow>
             (let poolLocator = unpackPoolLocator h loc in
              case formatBlockchainEventId e of
                Inl err \<Rightarrow> Inl err
              | Inr eventId \<Rightarrow>
                  (let approvalId = eventId @ ''/'' @ pl_poolId poolLocator in
                   Inr (Some
                     \<lparr> msg_event = ''token-approval'',
                       msg_data = TokenApproval
                         \<lparr> ta_id = approvalId,
                           ta_subject = templateString (afa_account output) @ '':''
                                          @ templateString (afa_operator output),
                           ta_poolLocator = loc,
                           ta_operator = afa_operator output,
                           ta_approved = afa_approved output,
                           ta_signer = afa_account output,
                           ta_data = decodedData,
                           ta_blockchain = blockchainEvent e eventId (ev_data e) \<rparr> \<rparr>))))"

text \<open>
  Reading a raw event body as the approval shape: the other shapes have an
  \<open>operator\<close> but neither \<open>account\<close> nor \<open>approved\<close>.
\<close>

fun asApprovalForAll :: "event_data \<Rightarrow> approval_for_all_data" where
  "asApprovalForAll (ApprovalForAllData d) = d"
| "asApprovalForAll (TokenPoolCreationData d) =
     \<lparr> afa_account = None, afa_operator = Some (tpc_operator d), afa_approved = None \<rparr>"
| "asApprovalForAll (TransferSingleData d) =
     \<lparr> afa_account = None, afa_operator = Some (ts_operator d), afa_approved = None \<rparr>"
| "asApprovalForAll (TransferBatchData d) =
     \<lparr> afa_account = None, afa_operator = Some (tb_operator d), afa_approved = None \<rparr>"

text \<open>
  \<open>onEvent\<close> dispatches on the signature. The result is the new state of the listener
  and the sequence of values handed to \<open>process\<close>, or the exception. Read as another
  shape, the body of a pool-creation event has no \<open>type_id\<close>, that of a single transfer
  no \<open>id\<close> and that of a batch no \<open>ids\<close>: \<open>BigInt(undefined)\<close> and
  \<open>undefined.length\<close> throw a TypeError.
\<close>

definition onEvent ::
  "helpers \<Rightarrow> (nat \<Rightarrow> string option) \<Rightarrow> token_listener \<Rightarrow> string \<Rightarrow> event_data event
     \<Rightarrow> token_listener \<times> (error + message option list)"
where
  "onEvent h query l subName e =
     (if ev_signature e = tokenCreateEventSignatureOld
          \<or> ev_signature e = tokenCreateEventSignature then
        (case ev_data e of
           TokenPoolCreationData d \<Rightarrow>
             (l, map_sum id (\<lambda>m. [m]) (transformTokenPoolCreationEvent h subName (withData e d)))
         | _ \<Rightarrow> (l, Inl TypeError))
      else if ev_signature e = transferSingleEventSignature then
        (case ev_data e of
           TransferSingleData d \<Rightarrow>
             map_prod id (map_sum id (\<lambda>m. [m]))
               (transformTransferSingleEvent h query l subName (withData e d) None)
         | _ \<Rightarrow> (l, Inl TypeError))
      else if ev_signature e = approvalForAllEventSignature then
        (l, map_sum id (\<lambda>m. [m])
              (transformApprovalForAllEvent h subName e (asApprovalForAll (ev_data e))))
      else if ev_signature e = transferBatchEventSignature then
        (case ev_data e of
           TransferBatchData d \<Rightarrow>
             map_prod id (map_sum id (map Some))
               (transformTransferBatchEvent h query l subName (withData e d))
         | _ \<Rightarrow> (l, Inl TypeError))
      else (l, Inr []))"

text \<open>The notifications of an outcome: the messages handed to \<open>process\<close>.\<close>

definition notifications :: "error + message option list \<Rightarrow> message list" where
  "notifications r = (case r of Inl err \<Rightarrow> [] | Inr ms \<Rightarrow> List.map_filter (\<lambda>m. m) ms)"

subsection \<open>Minting\<close>

text \<open>
  \<open>parseInt(s)\<close> without a radix: leading white space is skipped, a sign is read, a
  \<open>0x\<close> prefix selects radix 16, and the longest prefix of digits is the value; without
  a digit the result is \<open>NaN\<close> (\<open>None\<close>). The result is the mathematical integer: as a
  Number it is exact below \<open>2^53\<close>, and the loop of \<open>mint\<close> cannot tell larger values from
  one another, since an array holds at most \<open>2^32 - 1\<close> elements.
\<close>

definition parseInt :: "string \<Rightarrow> int option" where
  "parseInt str =
     (let S = trimStart str;
          negative = (S \<noteq> [] \<and> hd S = CHR ''-'');
          S1 = (if S \<noteq> [] \<and> (hd S = CHR ''+'' \<or> hd S = CHR ''-'') then tl S else S);
          hex = (take 2 S1 = ''0x'' \<or> take 2 S1 = ''0X'');
          R = (if hex then 16 else 10);
          S2 = (if hex then drop 2 S1 else S1);
          Z = takeWhile (\<lambda>c. digitIn R c \<noteq> None) S2
      in if Z = [] then None
         else map_option (\<lambda>n. if negative then - int n else int n) (digitsValue R 0 Z))"

text \<open>
  The longest array that \<open>push\<close> can build. The language puts the limit at \<open>2^32 - 1\<close>
  elements (\<open>push\<close> on an array of that length throws a RangeError); an engine gives up
  earlier, at a length of its own (V8 throws \<open>RangeError: Invalid array length\<close> when an
  array grows past some \<open>10^8\<close> elements). The limit of the engine is the parameter
  \<open>engineLimit\<close>.
\<close>

definition maxArrayLength :: "nat \<Rightarrow> nat" where
  "maxArrayLength engineLimit = min engineLimit 4294967295"

record token_mint =
  tm_poolLocator :: string
  tm_signer :: string
  tm_requestId :: "string option"
  tm_to :: string
  tm_amount :: string
  tm_data :: "string option"

record mint_body =
  mb_type_id :: string
  mb_to :: "string list"
  mb_amounts :: "string list option"
  mb_data :: string

text \<open>A call of \<open>invoke(path, from, id, body)\<close>, which posts the body to the chain
  client.\<close>

record invocation =
  inv_path :: string
  inv_from :: string
  inv_id :: "string option"
  inv_body :: mint_body

text \<open>
  The loop \<open>for (let i = 0; i < amount; i++) to.push(dto.to)\<close>: with \<open>NaN\<close> the test is
  false; \<open>push\<close> on an array of the longest length throws a RangeError.
\<close>

function mintLoop ::
  "nat \<Rightarrow> int option \<Rightarrow> string \<Rightarrow> nat \<Rightarrow> string list \<Rightarrow> error + string list"
where
  "mintLoop engineLimit amount recipient i to =
     (case amount of
        None \<Rightarrow> Inr to
      | Some n \<Rightarrow>
          if int i < n then
            (if length to = maxArrayLength engineLimit then Inl RangeError
             else mintLoop engineLimit amount recipient (Suc i) (to @ [recipient]))
          else Inr to)"
  by pat_completeness auto
termination
  by (relation "measure (\<lambda>(engineLimit, amount, recipient, i, to).
        case amount of None \<Rightarrow> 0 | Some n \<Rightarrow> nat n - i)") auto

declare mintLoop.simps [simp del]

text \<open>
  \<open>mint\<close>. The chain client is the parameter \<open>invoke\<close>, which answers an invocation with
  the id of the request or fails. The result is the list of the invocations submitted
  and the id returned, or the exception.
\<close>

definition mint ::
  "helpers \<Rightarrow> nat \<Rightarrow> (invocation \<Rightarrow> error + string) \<Rightarrow> token_mint
     \<Rightarrow> invocation list \<times> (error + string)"
where
  "mint h engineLimit invoke dto =
     (let poolLocator = unpackPoolLocator h (tm_poolLocator dto) in
      case packTokenId (pl_poolId poolLocator) None of
        Inl err \<Rightarrow> ([], Inl err)
      | Inr typeId \<Rightarrow>
          if isFungible (pl_poolId poolLocator) then
            (let request =
                   \<lparr> inv_path = ''/mintFungible'', inv_from = tm_signer dto,
                     inv_id = tm_requestId dto,
                     inv_body =
                       \<lparr> mb_type_id = typeId, mb_to = [tm_to dto],
                         mb_amounts = Some [tm_amount dto],
                         mb_data = encodeHex h
                           (case tm_data dto of None \<Rightarrow> '''' | Some d \<Rightarrow> d) \<rparr> \<rparr>
             in ([request], invoke request))
          else
            (case mintLoop engineLimit (parseInt (tm_amount dto)) (tm_to dto) 0 [] of
               Inl err \<Rightarrow> ([], Inl err)
             | Inr to \<Rightarrow>
                 (let request =
                        \<lparr> inv_path = ''/mintNonFungible'', inv_from = tm_signer dto,
                          inv_id = tm_requestId dto,
                          inv_body =
                            \<lparr> mb_type_id = typeId, mb_to = to, mb_amounts = None,
                              mb_data = encodeHex h
                                (case tm_data dto of None \<Rightarrow> '''' | Some d \<Rightarrow> d) \<rparr> \<rparr>
                  in ([request], invoke request))))"

subsection \<open>The migration check\<close>

text \<open>
  The streams and subscriptions of the transport (\<open>getStreams\<close>, \<open>getSubscriptions\<close>) are
  inputs; of a stream and a subscription the fields that the check reads are modelled.
  The warnings that the check logs are left out. The \<open>Map\<close> of found events keeps its
  keys in insertion order: an association list.
\<close>

record event_stream =
  es_id :: string
  es_name :: string

record event_stream_subscription =
  ess_name :: string
  ess_stream :: string

definition findStream :: "string \<Rightarrow> event_stream list \<Rightarrow> event_stream option" where
  "findStream name streams = find (\<lambda>s. es_name s = name) streams"

text \<open>\<open>existing.push(event)\<close> on the entry of the key, or \<open>foundEvents.set(key, [event])\<close>.\<close>

fun addFoundEvent ::
  "(string \<times> string list) list \<Rightarrow> string \<Rightarrow> string \<Rightarrow> (string \<times> string list) list"
where
  "addFoundEvent [] key ev = [(key, [ev])]"
| "addFoundEvent ((k, evs) # rest) key ev =
     (if k = key then (k, evs @ [ev]) # rest else (k, evs) # addFoundEvent rest key ev)"

text \<open>The test on one group of events.\<close>

definition eventsMismatch :: "string list \<Rightarrow> string list \<Rightarrow> bool" where
  "eventsMismatch expected events =
     (length expected \<noteq> length events \<or> \<not> list_all (\<lambda>event. event \<in> set events) expected)"

text \<open>
  The service that holds the listener (with a topic per namespace and a \<open>Map\<close> of
  streams). The loop over the subscriptions returns \<open>None\<close> where the source returns
  \<open>true\<close> on a name that does not parse.
\<close>

record tokens_service =
  svc_instancePath :: string
  svc_topicPrefix :: string
  svc_stream :: "string \<rightharpoonup> event_stream"

fun collectFoundEvents ::
  "helpers \<Rightarrow> event_stream_subscription list \<Rightarrow> (string \<times> string list) list
     \<Rightarrow> (string \<times> string list) list option"
where
  "collectFoundEvents h [] foundEvents = Some foundEvents"
| "collectFoundEvents h (sub # subs) foundEvents =
     (let parts = unpackSubscriptionName h (ess_name sub) in
      case sn_poolLocator parts of
        None \<Rightarrow> None
      | Some poolLocator \<Rightarrow>
          (case sn_event parts of
             None \<Rightarrow> None
           | Some event \<Rightarrow>
               collectFoundEvents h subs (addFoundEvent foundEvents poolLocator event)))"

text \<open>The stream that the check settles on. The stream found under the bare topic
  prefix is only logged: the next lookup overwrites it.\<close>

definition existingStream ::
  "helpers \<Rightarrow> tokens_service \<Rightarrow> string option \<Rightarrow> event_stream list \<Rightarrow> event_stream option"
where
  "existingStream h svc namespace streams =
     (let topic = topicName h (svc_topicPrefix svc) namespace;
          name = packStreamName h topic (svc_instancePath svc)
      in case findStream name streams of
           Some s \<Rightarrow> Some s
         | None \<Rightarrow>
             (let logged = findStream (svc_topicPrefix svc) streams;
                  oldName = packStreamName h (svc_topicPrefix svc) (svc_instancePath svc)
              in findStream oldName streams))"

text \<open>The subscriptions of the stream other than the base subscription.\<close>

definition poolSubscriptions ::
  "helpers \<Rightarrow> tokens_service \<Rightarrow> string option \<Rightarrow> event_stream
     \<Rightarrow> event_stream_subscription list \<Rightarrow> event_stream_subscription list"
where
  "poolSubscriptions h svc namespace stream allSubscriptions =
     (let topic = topicName h (svc_topicPrefix svc) namespace;
          baseSubscription =
            packSubscriptionName h topic (svc_instancePath svc) BASE_SUBSCRIPTION_NAME
              tokenCreateEvent
      in filter (\<lambda>s. ess_stream s = es_id stream \<and> ess_name s \<noteq> baseSubscription)
           allSubscriptions)"

definition migrationCheck ::
  "helpers \<Rightarrow> tokens_service \<Rightarrow> string option \<Rightarrow> event_stream list
     \<Rightarrow> event_stream_subscription list \<Rightarrow> tokens_service \<times> bool"
where
  "migrationCheck h svc namespace streams allSubscriptions =
     (case existingStream h svc namespace streams of
        None \<Rightarrow> (svc, False)
      | Some stream \<Rightarrow>
          (let topic = topicName h (svc_topicPrefix svc) namespace;
               svc' = svc\<lparr> svc_stream := (svc_stream svc)(topic \<mapsto> stream) \<rparr>;
               subscriptions = poolSubscriptions h svc namespace stream allSubscriptions
           in if subscriptions = [] then (svc', False)
              else
                (case collectFoundEvents h subscriptions [] of
                   None \<Rightarrow> (svc', True)
                 | Some foundEvents \<Rightarrow>
                     (svc', list_ex (\<lambda>(poolLocator, events).
                               eventsMismatch ALL_SUBSCRIBED_EVENTS events) foundEvents))))"

text \<open>
  The other service (one topic, one cached stream). It groups the subscriptions by the
  name packed from instance path, pool locator and pool data, skips the base
  subscription inside the loop, and expects the pool-creation event and the events of
  \<open>AllEvents\<close>.
\<close>








section \<open>Auxiliary predicates for the proofs\<close>

text \<open>A decimal digit, and a decimal numeral without a superfluous leading zero.\<close>

definition isDecimalDigit :: "char \<Rightarrow> bool" where
  "isDecimalDigit c = (48 \<le> (of_char c :: nat) \<and> (of_char c :: nat) \<le> 57)"

definition canonicalNumeral :: "string \<Rightarrow> bool" where
  "canonicalNumeral s = (s \<noteq> [] \<and> (hd s \<noteq> CHR ''0'' \<or> length s = 1))"

text \<open>The identity a notification carries: the \<open>id\<close> of a transfer or an approval, the
  blockchain event id of a pool.\<close>

definition messageId :: "message \<Rightarrow> string" where
  "messageId m =
     (case msg_data m of
        TokenPool p \<Rightarrow> bc_id (tp_blockchain p)
      | TokenTransfer t \<Rightarrow> tt_id t
      | TokenApproval a \<Rightarrow> ta_id a)"

text \<open>The single-transfer transform yields a message on member \<open>i\<close> of a batch.\<close>

definition yieldsMessage ::
  "helpers \<Rightarrow> (nat \<Rightarrow> string option) \<Rightarrow> token_listener \<Rightarrow> string
     \<Rightarrow> transfer_batch_data event \<Rightarrow> nat \<Rightarrow> bool"
where
  "yieldsMessage h query l subName e i =
     (case snd (transformTransferSingleEvent h query l subName (batchMember e i) (Some i)) of
        Inr (Some m) \<Rightarrow> True
      | _ \<Rightarrow> False)"

text \<open>The single-transfer transform throws on member \<open>i\<close> of a batch.\<close>

definition memberThrows ::
  "helpers \<Rightarrow> (nat \<Rightarrow> string option) \<Rightarrow> token_listener \<Rightarrow> string
     \<Rightarrow> transfer_batch_data event \<Rightarrow> nat \<Rightarrow> bool"
where
  "memberThrows h query l subName e i =
     (case snd (transformTransferSingleEvent h query l subName (batchMember e i) (Some i)) of
        Inl err \<Rightarrow> True
      | Inr r \<Rightarrow> False)"

text \<open>
  An instance of the helpers, to run the model on concrete inputs: a subscription name
  is \<open>poolLocator:event\<close> (a name without a colon does not parse), a pool locator is
  the pool id, a stream name is \<open>topic/instancePath\<close>.
\<close>

definition sampleHelpers :: helpers where
  "sampleHelpers =
     \<lparr> unpackSubscriptionName = (\<lambda>s.
         if CHR '':'' \<in> set s
         then \<lparr> sn_instancePath = None,
                sn_poolLocator = Some (takeWhile (\<lambda>c. c \<noteq> CHR '':'') s),
                sn_event = Some (drop 1 (dropWhile (\<lambda>c. c \<noteq> CHR '':'') s)),
                sn_poolData = None \<rparr>
         else \<lparr> sn_instancePath = None, sn_poolLocator = None, sn_event = None,
                sn_poolData = None \<rparr>),
       unpackPoolLocator = (\<lambda>s. \<lparr> pl_poolId = s, pl_address = None, pl_blockNumber = None \<rparr>),
       packPoolLocator = (\<lambda>p b. p),
       encodeHexIDForURI = (\<lambda>s. s),
       topicName = (\<lambda>t n. t),
       packStreamName = (\<lambda>t p. t @ ''/'' @ p),
       packSubscriptionName = (\<lambda>t p l ev. l @ '':'' @ ev),
       packSubscriptionName3 = (\<lambda>p l ev d. l @ '':'' @ ev),
       bufferToUtf8 = map char_of,
       bufferFromUtf8 = map of_char \<rparr>"

definition sampleListener :: token_listener where
  "sampleListener = \<lparr> uriPattern = None, queries = 0 \<rparr>"

definition sampleEvent :: "string \<Rightarrow> string \<Rightarrow> 'd \<Rightarrow> 'd event" where
  "sampleEvent sig txIndex d =
     \<lparr> ev_signature = sig, ev_address = ''0xc0'', ev_blockNumber = Some ''7'',
       ev_transactionIndex = txIndex, ev_transactionHash = ''0xaa'', ev_logIndex = Some ''2'',
       ev_timestamp = ''1'', ev_data = d, ev_inputArgs_data = None \<rparr>"

text \<open>The token ids of pool \<open>F1\<close> (index 0) and of pool \<open>N1\<close> (index 0).\<close>

definition idF1 :: string where
  "idF1 = ''340282366920938463463374607431768211456''"

definition idN1 :: string where
  "idN1 = ''57896044618658097711785492504343953926975274699741220483192166611388333031424''"

text \<open>
  The words of the specification for the migration check. A subscription is unparseable
  when its name unpacks without a pool locator or without an event. The subscriptions
  are grouped by a key (the pool locator); the group of a key is the list of the
  event kinds subscribed under it. A group is as expected when it holds exactly the
  expected kinds: none missing, none besides, none twice.
\<close>

definition unparseable :: "helpers \<Rightarrow> event_stream_subscription \<Rightarrow> bool" where
  "unparseable h s =
     (sn_poolLocator (unpackSubscriptionName h (ess_name s)) = None \<or>
      sn_event (unpackSubscriptionName h (ess_name s)) = None)"

definition poolKey :: "helpers \<Rightarrow> event_stream_subscription \<Rightarrow> string option" where
  "poolKey h s = sn_poolLocator (unpackSubscriptionName h (ess_name s))"

definition eventOf :: "helpers \<Rightarrow> event_stream_subscription \<Rightarrow> string option" where
  "eventOf h s = sn_event (unpackSubscriptionName h (ess_name s))"

definition groupKeys :: "('s \<Rightarrow> string option) \<Rightarrow> 's list \<Rightarrow> string list" where
  "groupKeys key subs = List.map_filter key subs"

definition groupEvents ::
  "('s \<Rightarrow> string option) \<Rightarrow> ('s \<Rightarrow> string option) \<Rightarrow> 's list \<Rightarrow> string \<Rightarrow> string list"
where
  "groupEvents key event subs k =
     List.map_filter (\<lambda>s. if key s = Some k then event s else None) subs"

definition exactlyExpected :: "string list \<Rightarrow> string list \<Rightarrow> bool" where
  "exactlyExpected expected events = (set events = set expected \<and> distinct events)"




definition sampleService :: tokens_service where
  "sampleService =
     \<lparr> svc_instancePath = ''i'', svc_topicPrefix = ''t'', svc_stream = Map.empty \<rparr>"


definition sampleStream :: event_stream where
  "sampleStream = \<lparr> es_id = ''es1'', es_name = ''t/i'' \<rparr>"

definition sampleSubscription :: "string \<Rightarrow> event_stream_subscription" where
  "sampleSubscription name = \<lparr> ess_name = name, ess_stream = ''es1'' \<rparr>"

text \<open>
  The stream of the check in the words of the specification: the stream under the name
  of the current scheme, or else a stream under a legacy name, the bare topic prefix
  or the topic prefix with the instance path.
\<close>

definition discoveredStream ::
  "helpers \<Rightarrow> tokens_service \<Rightarrow> string option \<Rightarrow> event_stream list \<Rightarrow> event_stream option"
where
  "discoveredStream h svc namespace streams =
     (let topic = topicName h (svc_topicPrefix svc) namespace;
          name = packStreamName h topic (svc_instancePath svc);
          oldName = packStreamName h (svc_topicPrefix svc) (svc_instancePath svc)
      in case findStream name streams of
           Some s \<Rightarrow> Some s
         | None \<Rightarrow>
             (case findStream (svc_topicPrefix svc) streams of
                Some s \<Rightarrow> Some s
              | None \<Rightarrow> findStream oldName streams))"


section \<open>Properties of the identifier codec\<close>

subsection \<open>Numerals\<close>

lemma digit_cases:
  assumes "(d::nat) < 10"
  shows "d = 0 \<or> d = 1 \<or> d = 2 \<or> d = 3 \<or> d = 4 \<or> d = 5 \<or> d = 6 \<or> d = 7 \<or> d = 8 \<or> d = 9"
  using assms by arith

lemma digitIn_digitChar: "d < 10 \<Longrightarrow> digitIn 10 (digitChar d) = Some d"
  by (drule digit_cases) (auto simp: digitIn_def digitValue_def digitChar_def)

lemma isDecimalDigit_digitChar: "d < 10 \<Longrightarrow> isDecimalDigit (digitChar d)"
  by (drule digit_cases) (auto simp: isDecimalDigit_def digitChar_def)

lemma digitsValue_append:
  "digitsValue r acc (xs @ ys) =
     (case digitsValue r acc xs of None \<Rightarrow> None | Some a \<Rightarrow> digitsValue r a ys)"
  by (induction xs arbitrary: acc) (auto split: option.splits)

lemma digitsValue_decimal: "digitsValue 10 0 (decimal n) = Some n"
proof (induction n rule: decimal.induct)
  case (1 n)
  show ?case
  proof (cases "n < 10")
    case True
    then show ?thesis by (subst decimal.simps) (simp add: digitIn_digitChar)
  next
    case False
    have m: "n mod 10 < 10" by simp
    from False 1 have ih: "digitsValue 10 0 (decimal (n div 10)) = Some (n div 10)" by simp
    show ?thesis
      by (subst decimal.simps) (simp add: False digitsValue_append ih digitIn_digitChar [OF m])
  qed
qed

lemma decimal_digits: "\<forall>c \<in> set (decimal n). isDecimalDigit c"
proof (induction n rule: decimal.induct)
  case (1 n)
  show ?case
  proof (cases "n < 10")
    case True
    then show ?thesis by (subst decimal.simps) (simp add: isDecimalDigit_digitChar)
  next
    case False
    have m: "n mod 10 < 10" by simp
    from False 1 have ih: "\<forall>c \<in> set (decimal (n div 10)). isDecimalDigit c" by simp
    show ?thesis
      by (subst decimal.simps) (simp add: False ih isDecimalDigit_digitChar [OF m])
  qed
qed

lemma decimal_nonempty: "decimal n \<noteq> []"
  by (subst decimal.simps) simp

lemma digit_not_ws: "isDecimalDigit c \<Longrightarrow> \<not> isStrWhiteSpaceChar c"
  by (auto simp: isDecimalDigit_def isStrWhiteSpaceChar_def)

lemma trim_digits:
  assumes "\<forall>c \<in> set s. isDecimalDigit c"
  shows "trim s = s"
proof -
  have a: "dropWhile isStrWhiteSpaceChar s = s"
    using assms by (cases s) (auto simp: digit_not_ws)
  have b: "dropWhile isStrWhiteSpaceChar (rev s) = rev s"
    using assms by (cases "rev s") (auto simp: digit_not_ws dest!: arg_cong [where f = set])
  show ?thesis by (simp add: trim_def trimStart_def a b)
qed

lemma StringToBigInt_digits:
  assumes d: "\<forall>c \<in> set s. isDecimalDigit c" and ne: "s \<noteq> []"
  shows "StringToBigInt s = map_option int (digitsValue 10 0 s)"
proof -
  obtain c cs where s: "s = c # cs" using ne by (cases s) auto
  have c: "isDecimalDigit c" using d s by simp
  have c1: "c \<noteq> CHR ''+''" "c \<noteq> CHR ''-''" using c by (auto simp: isDecimalDigit_def)
  have c2: "cs \<noteq> [] \<Longrightarrow> hd cs \<notin> {CHR ''x'', CHR ''X'', CHR ''o'', CHR ''O'', CHR ''b'', CHR ''B''}"
    using d s by (cases cs) (auto simp: isDecimalDigit_def)
  have t: "trim (c # cs) = c # cs" using trim_digits [OF d] s by simp
  show ?thesis
    unfolding StringToBigInt_def s t nonEmptyDigits_def using c1 c2 by auto
qed

lemma digitChar_of_digitIn:
  assumes "digitIn 10 c = Some d"
  shows "digitChar d = c"
proof -
  from assms have d: "d < 10" and oc: "(of_char c :: nat) = 48 + d"
    by (auto simp: digitIn_def digitValue_def Let_def split: if_splits option.splits)
  have "(of_char (digitChar d) :: nat) = 48 + d"
    using d by - (drule digit_cases, auto simp: digitChar_def)
  with oc have "(of_char (digitChar d) :: nat) = of_char c" by simp
  then show ?thesis by simp
qed

lemma digitsValue_ge: "digitsValue 10 acc s = Some m \<Longrightarrow> acc \<le> m"
proof (induction s arbitrary: acc)
  case Nil
  then show ?case by simp
next
  case (Cons c cs)
  then obtain d where "digitsValue 10 (acc * 10 + d) cs = Some m"
    by (auto split: option.splits)
  from Cons.IH [OF this] show ?case by simp
qed

lemma digitsValue_pos:
  assumes "digitsValue 10 0 s = Some m" and "s \<noteq> []" and "hd s \<noteq> CHR ''0''"
  shows "0 < m"
proof -
  obtain c cs where s: "s = c # cs" using assms(2) by (cases s) auto
  from assms(1) s obtain d where d: "digitIn 10 c = Some d" and r: "digitsValue 10 d cs = Some m"
    by (auto split: option.splits)
  have "d \<noteq> 0"
  proof
    assume "d = 0"
    with digitChar_of_digitIn [OF d] have "c = CHR ''0''" by (simp add: digitChar_def)
    with assms(3) s show False by simp
  qed
  with digitsValue_ge [OF r] show ?thesis by simp
qed

lemma decimal_of_digits:
  "digitsValue 10 0 s = Some n \<Longrightarrow> canonicalNumeral s \<Longrightarrow> decimal n = s"
proof (induction s arbitrary: n rule: rev_induct)
  case Nil
  then show ?case by (simp add: canonicalNumeral_def)
next
  case (snoc c xs)
  from snoc.prems(1) obtain m d where m: "digitsValue 10 0 xs = Some m"
    and d: "digitIn 10 c = Some d" and n: "n = m * 10 + d"
    by (auto simp: digitsValue_append split: option.splits)
  have d10: "d < 10" using d by (auto simp: digitIn_def split: option.splits if_splits)
  show ?case
  proof (cases "xs = []")
    case True
    with m have "m = 0" by simp
    with n d10 have "decimal n = [digitChar d]" by (subst decimal.simps) simp
    with True digitChar_of_digitIn [OF d] show ?thesis by simp
  next
    case False
    with snoc.prems(2) have h: "hd xs \<noteq> CHR ''0''" by (auto simp: canonicalNumeral_def)
    then have cx: "canonicalNumeral xs" using False by (simp add: canonicalNumeral_def)
    have mpos: "0 < m" by (rule digitsValue_pos [OF m False h])
    have "decimal n = decimal (n div 10) @ [digitChar (n mod 10)]"
      using mpos n by (subst decimal.simps) simp
    also have "n div 10 = m" using n d10 by simp
    also have "n mod 10 = d" using n d10 by simp
    finally show ?thesis
      using snoc.IH [OF m cx] digitChar_of_digitIn [OF d] by simp
  qed
qed

lemma hd_decimal: "0 < n \<Longrightarrow> hd (decimal n) \<noteq> CHR ''0''"
proof (induction n rule: decimal.induct)
  case (1 n)
  show ?case
  proof (cases "n < 10")
    case True
    with 1(2) show ?thesis
      by (subst decimal.simps) (use digit_cases [OF True] in \<open>auto simp: digitChar_def\<close>)
  next
    case False
    then have "0 < n div 10" by simp
    with 1(1) False have "hd (decimal (n div 10)) \<noteq> CHR ''0''" by simp
    then show ?thesis
      by (subst decimal.simps) (simp add: False decimal_nonempty)
  qed
qed

lemma canonicalNumeral_decimal: "canonicalNumeral (decimal n)"
proof (cases "n = 0")
  case True
  then show ?thesis by (subst decimal.simps) (simp add: canonicalNumeral_def)
next
  case False
  then show ?thesis by (simp add: canonicalNumeral_def decimal_nonempty hd_decimal)
qed

lemma decimal_eq_iff:
  "decimal n = s \<longleftrightarrow> canonicalNumeral s \<and> digitsValue 10 0 s = Some n"
  using decimal_of_digits canonicalNumeral_decimal digitsValue_decimal by blast

lemma BigInt_decimal: "BigInt (decimal n) = Inr (int n)"
  by (simp add: BigInt_def StringToBigInt_digits [OF decimal_digits decimal_nonempty] digitsValue_decimal)

lemma BigInt_toString_nat: "BigInt_toString (int n) = decimal n"
  by (simp add: BigInt_toString_def)

lemma pack_bits:
  fixes f s i :: int
  assumes f: "f = 0 \<or> f = 1" and s: "0 \<le> s" "s < 2 ^ 127" and i: "0 \<le> i" "i < 2 ^ 128"
  defines "v \<equiv> push_bit 255 f OR push_bit 128 s OR i"
  shows "drop_bit 255 v = f" and "drop_bit 128 (take_bit 255 v) = s" and "take_bit 128 v = i"
    and "0 \<le> v"
proof -
  have ts: "take_bit 127 s = s" using s by (simp add: take_bit_int_eq_self)
  have ti: "take_bit 128 i = i" using i by (simp add: take_bit_int_eq_self)
  have tf: "take_bit 1 f = f" using f by auto
  have bs: "\<And>n. bit s n \<Longrightarrow> n < 127" by (metis ts bit_take_bit_iff)
  have bi: "\<And>n. bit i n \<Longrightarrow> n < 128" by (metis ti bit_take_bit_iff)
  have bf: "\<And>n. bit f n \<Longrightarrow> n < 1" by (metis tf bit_take_bit_iff)
  show "drop_bit 255 v = f"
    unfolding v_def by (rule bit_eqI) (auto simp: bit_simps dest: bs bi bf)
  show "drop_bit 128 (take_bit 255 v) = s"
    unfolding v_def by (rule bit_eqI) (auto simp: bit_simps dest: bs bi bf)
  show "take_bit 128 v = i"
    unfolding v_def by (rule bit_eqI) (auto simp: bit_simps dest: bs bi bf)
  show "0 \<le> v" unfolding v_def using f s i by auto
qed

lemma packTokenId_decimal:
  "packTokenId (t # decimal s) (Some (decimal i)) =
     Inr (decimal (nat (push_bit 255 (if t = CHR ''F'' then 0 else 1)
                          OR push_bit 128 (int s) OR int i)))"
proof -
  have "(0::int) \<le> push_bit 255 (if t = CHR ''F'' then 0 else 1) OR push_bit 128 (int s) OR int i"
    by simp
  then show ?thesis
    by (simp add: packTokenId_def BigInt_decimal isFungible_def BigInt_toString_def)
qed

lemmas js_eval = StringToBigInt_def trim_def trimStart_def isStrWhiteSpaceChar_def
  nonEmptyDigits_def digitIn_def digitValue_def digitChar_def BigInt_def
  BigInt_toString_def padStart_def canonicalNumeral_def

lemmas codec_eval = js_eval packTokenId_def unpackTokenId_def isFungible_def

subsection \<open>Token ids\<close>

text \<open>
  Claim C1. For a tag \<open>F\<close> or \<open>N\<close>, a pool sequence below \<open>2^127\<close> and a token index
  below \<open>2^128\<close>, packing the pool id (tag and decimal sequence) with the decimal index
  succeeds, and unpacking the result gives back the fungibility flag, the pool id and
  the index.
\<close>

theorem packTokenId_unpackTokenId_roundtrip:
  assumes t: "t = CHR ''F'' \<or> t = CHR ''N''" and s: "s < 2 ^ 127" and i: "i < 2 ^ 128"
  shows "\<exists>tid. packTokenId (t # decimal s) (Some (decimal i)) = Inr tid \<and>
           unpackTokenId tid =
             Inr \<lparr> uid_isFungible = (t = CHR ''F''), uid_poolId = t # decimal s,
                   uid_tokenIndex = decimal i \<rparr>"
proof -
  define f :: int where "f = (if t = CHR ''F'' then 0 else 1)"
  define v where "v = push_bit 255 f OR push_bit 128 (int s) OR int i"
  have f: "f = 0 \<or> f = 1" by (simp add: f_def)
  have s': "int s < 2 ^ 127" using s by (metis of_nat_less_iff of_nat_numeral of_nat_power)
  have i': "int i < 2 ^ 128" using i by (metis of_nat_less_iff of_nat_numeral of_nat_power)
  have s0: "0 \<le> int s" and i0: "0 \<le> int i" by simp_all
  have pb1: "drop_bit 255 v = f" unfolding v_def by (rule pack_bits(1) [OF f s0 s' i0 i'])
  have pb2: "drop_bit 128 (take_bit 255 v) = int s"
    unfolding v_def by (rule pack_bits(2) [OF f s0 s' i0 i'])
  have pb3: "take_bit 128 v = int i" unfolding v_def by (rule pack_bits(3) [OF f s0 s' i0 i'])
  have v0: "0 \<le> v" unfolding v_def by (rule pack_bits(4) [OF f s0 s' i0 i'])
  have p: "packTokenId (t # decimal s) (Some (decimal i)) = Inr (decimal (nat v))"
    unfolding v_def f_def by (rule packTokenId_decimal)
  have b: "BigInt (decimal (nat v)) = Inr v"
    using v0 by (simp add: BigInt_decimal)
  have fz: "(f = 0) = (t = CHR ''F'')" by (simp add: f_def)
  have u: "unpackTokenId (decimal (nat v)) =
      Inr \<lparr> uid_isFungible = (t = CHR ''F''), uid_poolId = t # decimal s,
            uid_tokenIndex = decimal i \<rparr>"
    apply (simp only: unpackTokenId_def b sum.case Let_def pb1 pb2 pb3 fz BigInt_toString_nat)
    using t apply (elim disjE)
    apply simp
    apply simp
    done
  show ?thesis using p u by blast
qed

theorem packTokenId_unpackTokenId_roundtrip_witness:
  "\<exists>tid. packTokenId ''N5'' (Some ''7'') = Inr tid \<and>
     unpackTokenId tid =
       Inr \<lparr> uid_isFungible = False, uid_poolId = ''N5'', uid_tokenIndex = ''7'' \<rparr>"
  using packTokenId_unpackTokenId_roundtrip [of "CHR ''N''" 5 7]
  by (simp add: decimal.simps digitChar_def)

text \<open>
  Claim C7. \<open>packTokenId("F1")\<close> with the default token index is the decimal numeral of
  \<open>2^128\<close>, and \<open>packTokenId("N1", "0")\<close> is the decimal numeral of \<open>2^255 + 2^128\<close>.
\<close>

theorem packTokenId_literals:
  "packTokenId ''F1'' None = Inr ''340282366920938463463374607431768211456'' \<and>
   packTokenId ''N1'' (Some ''0'') =
     Inr ''57896044618658097711785492504343953926975274699741220483192166611388333031424'' \<and>
   (340282366920938463463374607431768211456 :: int) = 2 ^ 128 \<and>
   (57896044618658097711785492504343953926975274699741220483192166611388333031424 :: int)
     = 2 ^ 255 + 2 ^ 128"
  by (simp add: codec_eval decimal_eq_iff)

text \<open>
  Claim C2, as stated, fails: a tag other than \<open>F\<close> and \<open>N\<close> is packed as non-fungible,
  a negative sequence is accepted, and neither the sequence nor the index is checked
  against its bit width.
\<close>

theorem packTokenId_unvalidated:
  "packTokenId ''X1'' (Some ''0'') =
     Inr ''57896044618658097711785492504343953926975274699741220483192166611388333031424'' \<and>
   packTokenId ''F-5'' (Some ''0'') = Inr ''-1701411834604692317316873037158841057280'' \<and>
   packTokenId ''F170141183460469231731687303715884105728'' (Some ''0'') =
     Inr ''57896044618658097711785492504343953926634992332820282019728792003956564819968'' \<and>
   packTokenId ''F0'' (Some ''340282366920938463463374607431768211456'') =
     Inr ''340282366920938463463374607431768211456''"
  by (simp add: codec_eval decimal_eq_iff)

text \<open>
  Claim C2, amended. \<open>packTokenId\<close> fails exactly when the pool id without its first
  character, or the token index, is not an integer literal of \<open>BigInt\<close>; the error is
  then the SyntaxError of \<open>BigInt\<close>. No other input fails.
\<close>

theorem packTokenId_fails_iff:
  "packTokenId pool_id token_index = Inl e \<longleftrightarrow>
     e = SyntaxError \<and>
     (StringToBigInt (drop 1 pool_id) = None \<or>
      StringToBigInt (case token_index of None \<Rightarrow> ''0'' | Some t \<Rightarrow> t) = None)"
  by (auto simp: packTokenId_def BigInt_def Let_def split: option.splits sum.splits)

section \<open>Properties of the listener\<close>

subsection \<open>Event identities and the single-transfer transform\<close>

lemma formatBlockchainEventId_literal:
  "StringToBigInt (ev_transactionIndex e) = Some tx \<Longrightarrow>
   formatBlockchainEventId e =
     Inr (join3 (padStart 12 CHR ''0'' (case ev_blockNumber e of None \<Rightarrow> ''0'' | Some b \<Rightarrow> b))
                (padStart 6 CHR ''0'' (BigInt_toString tx))
                (padStart 6 CHR ''0'' (case ev_logIndex e of None \<Rightarrow> ''0'' | Some l \<Rightarrow> l)))"
  by (simp add: formatBlockchainEventId_def BigInt_def)

lemma formatBlockchainEventId_not_literal:
  "StringToBigInt (ev_transactionIndex e) = None \<Longrightarrow>
   formatBlockchainEventId e = Inl SyntaxError"
  by (simp add: formatBlockchainEventId_def BigInt_def)

lemma withData_sel [simp]:
  "ev_signature (withData e d) = ev_signature e"
  "ev_address (withData e d) = ev_address e"
  "ev_blockNumber (withData e d) = ev_blockNumber e"
  "ev_transactionIndex (withData e d) = ev_transactionIndex e"
  "ev_transactionHash (withData e d) = ev_transactionHash e"
  "ev_logIndex (withData e d) = ev_logIndex e"
  "ev_timestamp (withData e d) = ev_timestamp e"
  "ev_data (withData e d) = d"
  "ev_inputArgs_data (withData e d) = ev_inputArgs_data e"
  by (simp_all add: withData_def)

lemma formatBlockchainEventId_withData [simp]:
  "formatBlockchainEventId (withData e d) = formatBlockchainEventId e"
  by (simp add: formatBlockchainEventId_def Let_def split: sum.splits)

lemma notifications_single [simp]:
  "notifications (Inr [r]) = (case r of None \<Rightarrow> [] | Some m \<Rightarrow> [m])"
  by (simp add: notifications_def List.map_filter_def split: option.splits)

lemma notifications_Inl [simp]: "notifications (Inl err) = []"
  by (simp add: notifications_def)

lemma notifications_map_Some [simp]: "notifications (Inr (map Some ms)) = ms"
  by (induction ms) (simp_all add: notifications_def List.map_filter_def)

text \<open>The outcome of the single-transfer transform behind its guards.\<close>

lemma transformTransferSingleEvent_guarded:
  assumes u: "unpackTokenId (ts_id (ev_data e)) = Inr u"
    and loc: "sn_poolLocator (unpackSubscriptionName h subName) = Some loc"
    and pool: "pl_poolId (unpackPoolLocator h loc) = uid_poolId u"
    and fid: "formatBlockchainEventId e = Inr eventId"
    and nz: "\<not> (ts_from (ev_data e) = ZERO_ADDRESS \<and> ts_to (ev_data e) = ZERO_ADDRESS)"
  shows "\<exists>l' t. transformTransferSingleEvent h query l subName e idx =
           (l', Inr (Some \<lparr> msg_event =
                               (if ts_from (ev_data e) = ZERO_ADDRESS then ''token-mint''
                                else if ts_to (ev_data e) = ZERO_ADDRESS then ''token-burn''
                                else ''token-transfer''),
                             msg_data = TokenTransfer t \<rparr>)) \<and>
         tt_id t = (case idx of None \<Rightarrow> eventId
                    | Some i \<Rightarrow> eventId @ ''/'' @ padStart 6 CHR ''0'' (decimal i)) \<and>
         tt_from t = (if ts_from (ev_data e) = ZERO_ADDRESS then None
                      else Some (ts_from (ev_data e))) \<and>
         tt_to t = (if ts_from (ev_data e) \<noteq> ZERO_ADDRESS \<and> ts_to (ev_data e) = ZERO_ADDRESS
                    then None else Some (ts_to (ev_data e)))"
  using nz
  by (auto simp: transformTransferSingleEvent_def Let_def u loc pool fid split: prod.splits)

lemma transformTransferSingleEvent_both_zero:
  assumes u: "unpackTokenId (ts_id (ev_data e)) = Inr u"
    and z: "ts_from (ev_data e) = ZERO_ADDRESS" "ts_to (ev_data e) = ZERO_ADDRESS"
  shows "transformTransferSingleEvent h query l subName e idx = (l, Inr None)"
  by (simp add: transformTransferSingleEvent_def Let_def u z split: option.splits)

lemma transformTransferSingleEvent_mismatch:
  assumes u: "unpackTokenId (ts_id (ev_data e)) = Inr u"
    and loc: "sn_poolLocator (unpackSubscriptionName h subName) = Some loc"
    and pool: "pl_poolId (unpackPoolLocator h loc) \<noteq> uid_poolId u"
  shows "transformTransferSingleEvent h query l subName e idx = (l, Inr None)"
  by (simp add: transformTransferSingleEvent_def Let_def u loc pool)

lemma transformTransferSingleEvent_no_locator:
  assumes loc: "sn_poolLocator (unpackSubscriptionName h subName) = None"
  shows "transformTransferSingleEvent h query l subName e idx =
           (l, case unpackTokenId (ts_id (ev_data e)) of Inl err \<Rightarrow> Inl err | Inr u \<Rightarrow> Inr None)"
  by (simp add: transformTransferSingleEvent_def Let_def loc split: sum.splits)

lemma unpackTokenId_literal:
  "StringToBigInt s \<noteq> None \<Longrightarrow> \<exists>u. unpackTokenId s = Inr u"
  by (auto simp: unpackTokenId_def BigInt_def Let_def)

lemma unpackTokenId_not_literal:
  "StringToBigInt s = None \<Longrightarrow> unpackTokenId s = Inl SyntaxError"
  by (simp add: unpackTokenId_def BigInt_def)

lemma transformTransferSingleEvent_returns:
  assumes u: "unpackTokenId (ts_id (ev_data e)) = Inr u"
    and fid: "formatBlockchainEventId e = Inr eventId"
  shows "\<exists>l' r. transformTransferSingleEvent h query l subName e idx = (l', Inr r)"
  by (auto simp: transformTransferSingleEvent_def Let_def u fid
           split: prod.splits option.splits)

lemma transformTransferSingleEvent_messageId:
  assumes m: "snd (transformTransferSingleEvent h query l subName e idx) = Inr (Some m)"
    and fid: "formatBlockchainEventId e = Inr eventId"
  shows "messageId m = (case idx of None \<Rightarrow> eventId
                        | Some i \<Rightarrow> eventId @ ''/'' @ padStart 6 CHR ''0'' (decimal i))"
  using m
  by (auto simp: transformTransferSingleEvent_def Let_def fid messageId_def
           split: prod.splits option.splits sum.splits if_splits)

text \<open>Whether a member yields a message does not depend on the listener's cache.\<close>

lemma transformTransferSingleEvent_outcome_indep:
  "map_sum id (map_option messageId)
     (snd (transformTransferSingleEvent h query l subName e idx)) =
   map_sum id (map_option messageId)
     (snd (transformTransferSingleEvent h query2 l2 subName e idx))"
  by (auto simp: transformTransferSingleEvent_def Let_def messageId_def
           split: prod.splits option.splits sum.splits if_splits)

lemma yieldsMessage_indep:
  "yieldsMessage h query l subName e i = yieldsMessage h query2 l2 subName e i"
proof -
  have "\<And>r. (case r of Inr (Some m) \<Rightarrow> True | _ \<Rightarrow> False) =
            (case map_sum id (map_option messageId) r of Inr (Some m) \<Rightarrow> True | _ \<Rightarrow> False)"
    by (auto split: sum.splits option.splits)
  then show ?thesis
    unfolding yieldsMessage_def
    by (metis transformTransferSingleEvent_outcome_indep)
qed

subsection \<open>The batch loop\<close>

lemma digitsValue_leading_zeros:
  "digitsValue 10 0 (replicate k CHR ''0'' @ s) = digitsValue 10 0 s"
  by (induction k) (simp_all add: digitIn_def digitValue_def)

lemma padStart_decimal_inj:
  assumes "padStart n CHR ''0'' (decimal i) = padStart n CHR ''0'' (decimal j)"
  shows "i = j"
proof -
  have v: "\<And>k. digitsValue 10 0 (padStart n CHR ''0'' (decimal k)) = Some k"
    unfolding padStart_def by (simp only: digitsValue_leading_zeros digitsValue_decimal)
  have "Some i = digitsValue 10 0 (padStart n CHR ''0'' (decimal i))" by (simp only: v)
  also have "\<dots> = digitsValue 10 0 (padStart n CHR ''0'' (decimal j))" by (simp only: assms)
  also have "\<dots> = Some j" by (simp only: v)
  finally show ?thesis by (simp only: option.inject)
qed

lemma subIndex_inj: "inj (\<lambda>i. base @ ''/'' @ padStart 6 CHR ''0'' (decimal i))"
proof (rule injI)
  fix i j
  assume "base @ ''/'' @ padStart 6 CHR ''0'' (decimal i)
            = base @ ''/'' @ padStart 6 CHR ''0'' (decimal j)"
  then have "padStart 6 CHR ''0'' (decimal i) = padStart 6 CHR ''0'' (decimal j)"
    by (simp only: same_append_eq)
  then show "i = j" by (rule padStart_decimal_inj)
qed

text \<open>The loop, when no member throws: the messages are those the single-transfer
  transform yields, in the order of the members.\<close>

lemma transformTransferBatchLoop_collects:
  assumes ids: "\<forall>j < length (tb_ids (ev_data e)). StringToBigInt (tb_ids (ev_data e) ! j) \<noteq> None"
    and fid: "formatBlockchainEventId e = Inr base"
  shows "\<exists>l' ms. transformTransferBatchLoop h query subName e i l messages = (l', Inr (messages @ ms)) \<and>
           list_all2 (\<lambda>m j. \<exists>l0. snd (transformTransferSingleEvent h query l0 subName
                                          (batchMember e j) (Some j)) = Inr (Some m))
             ms (filter (yieldsMessage h query l subName e) [i..<length (tb_ids (ev_data e))])"
proof (induction "length (tb_ids (ev_data e)) - i" arbitrary: i l messages)
  case 0
  then show ?case
    by (subst transformTransferBatchLoop.simps) simp
next
  case (Suc k)
  let ?N = "length (tb_ids (ev_data e))"
  let ?R = "\<lambda>m j. \<exists>l0. snd (transformTransferSingleEvent h query l0 subName
                                          (batchMember e j) (Some j)) = Inr (Some m)"
  from Suc.hyps(2) have True: "i < ?N" by simp
  have "StringToBigInt (ts_id (ev_data (batchMember e i))) \<noteq> None"
    using ids True by (simp add: batchMember_def)
  then obtain u where u: "unpackTokenId (ts_id (ev_data (batchMember e i))) = Inr u"
    using unpackTokenId_literal by blast
  have fid': "formatBlockchainEventId (batchMember e i) = Inr base"
    using fid by (simp add: batchMember_def)
  from transformTransferSingleEvent_returns [OF u fid'] obtain l' r where
    s: "transformTransferSingleEvent h query l subName (batchMember e i) (Some i) = (l', Inr r)"
    by blast
  have upt: "[i..<?N] = i # [Suc i..<?N]" using True by (simp add: upt_conv_Cons)
  have yi: "yieldsMessage h query l' subName e = yieldsMessage h query l subName e"
    by (rule ext) (rule yieldsMessage_indep)
  have k: "k = ?N - Suc i" using Suc.hyps(2) by simp
  show ?case
  proof (cases r)
    case None
    have ny: "\<not> yieldsMessage h query l subName e i"
      by (simp add: yieldsMessage_def s None)
    from Suc.hyps(1) [OF k, of l' messages] obtain l'' ms where
      a: "transformTransferBatchLoop h query subName e (Suc i) l' messages
            = (l'', Inr (messages @ ms))"
      and b: "list_all2 ?R ms (filter (yieldsMessage h query l' subName e) [Suc i..<?N])"
      by blast
    have "transformTransferBatchLoop h query subName e i l messages = (l'', Inr (messages @ ms))"
      by (subst transformTransferBatchLoop.simps) (simp add: True s None a)
    moreover have "list_all2 ?R ms (filter (yieldsMessage h query l subName e) [i..<?N])"
      using b by (simp add: upt ny yi)
    ultimately show ?thesis by blast
  next
    case (Some m)
    have y: "yieldsMessage h query l subName e i"
      by (simp add: yieldsMessage_def s Some)
    have sm: "?R m i"
      using s Some by (metis snd_conv)
    from Suc.hyps(1) [OF k, of l' "messages @ [m]"] obtain l'' ms where
      a: "transformTransferBatchLoop h query subName e (Suc i) l' (messages @ [m])
            = (l'', Inr ((messages @ [m]) @ ms))"
      and b: "list_all2 ?R ms (filter (yieldsMessage h query l' subName e) [Suc i..<?N])"
      by blast
    have "transformTransferBatchLoop h query subName e i l messages
            = (l'', Inr (messages @ (m # ms)))"
      by (subst transformTransferBatchLoop.simps) (simp add: True s Some a)
    moreover have "list_all2 ?R (m # ms) (filter (yieldsMessage h query l subName e) [i..<?N])"
      using b sm by (simp add: upt y yi)
    ultimately show ?thesis by blast
  qed
qed

subsection \<open>Subscription names without a pool locator\<close>

lemma notifications_Nil [simp]: "notifications (Inr []) = []"
  by (simp add: notifications_def List.map_filter_def)

lemma transformTransferBatchLoop_no_locator:
  assumes loc: "sn_poolLocator (unpackSubscriptionName h subName) = None"
  shows "transformTransferBatchLoop h query subName e i l messages =
           (l, if \<forall>j. i \<le> j \<and> j < length (tb_ids (ev_data e))
                      \<longrightarrow> StringToBigInt (tb_ids (ev_data e) ! j) \<noteq> None
               then Inr messages else Inl SyntaxError)"
proof (induction "length (tb_ids (ev_data e)) - i" arbitrary: i)
  case 0
  then show ?case
    by (subst transformTransferBatchLoop.simps) simp
next
  case (Suc k)
  let ?N = "length (tb_ids (ev_data e))"
  let ?P = "\<lambda>j. StringToBigInt (tb_ids (ev_data e) ! j) \<noteq> None"
  from Suc.hyps(2) have True: "i < ?N" and k: "k = ?N - Suc i" by simp_all
  note s = transformTransferSingleEvent_no_locator [OF loc, of query l "batchMember e i" "Some i"]
  have id: "ts_id (ev_data (batchMember e i)) = tb_ids (ev_data e) ! i"
    by (simp add: batchMember_def)
  have split: "(\<forall>j. i \<le> j \<and> j < ?N \<longrightarrow> ?P j) \<longleftrightarrow>
               ?P i \<and> (\<forall>j. Suc i \<le> j \<and> j < ?N \<longrightarrow> ?P j)"
    using True by (metis Suc_le_eq le_eq_less_or_eq order_refl)
  show ?case
  proof (cases "StringToBigInt (tb_ids (ev_data e) ! i)")
    case None
    have "transformTransferBatchLoop h query subName e i l messages = (l, Inl SyntaxError)"
      by (subst transformTransferBatchLoop.simps)
         (simp add: True s id unpackTokenId_not_literal [OF None])
    with None show ?thesis by (simp only: split) simp
  next
    case (Some v)
    then obtain u where u: "unpackTokenId (tb_ids (ev_data e) ! i) = Inr u"
      using unpackTokenId_literal [of "tb_ids (ev_data e) ! i"] by auto
    have "transformTransferBatchLoop h query subName e i l messages
            = transformTransferBatchLoop h query subName e (Suc i) l messages"
      by (subst transformTransferBatchLoop.simps) (simp add: True s id u)
    with Suc.hyps(1) [OF k] Some show ?thesis by (simp only: split) simp
  qed
qed

lemma transformTransferBatchEvent_no_locator:
  assumes loc: "sn_poolLocator (unpackSubscriptionName h subName) = None"
  shows "transformTransferBatchEvent h query l subName e =
           (l, if list_all (\<lambda>i. StringToBigInt i \<noteq> None) (tb_ids (ev_data e))
               then Inr [] else Inl SyntaxError)"
  unfolding transformTransferBatchEvent_def transformTransferBatchLoop_no_locator [OF loc]
  by (simp add: list_all_length)

lemma transformTokenPoolCreationEvent_no_locator:
  assumes loc: "sn_poolLocator (unpackSubscriptionName h subName) = None"
  shows "transformTokenPoolCreationEvent h subName e =
           (case unpackTokenId (tpc_type_id (ev_data e)) of Inl err \<Rightarrow> Inl err | Inr u \<Rightarrow> Inr None)"
  by (simp add: transformTokenPoolCreationEvent_def Let_def loc split: sum.splits)

lemma transformApprovalForAllEvent_no_locator:
  assumes loc: "sn_poolLocator (unpackSubscriptionName h subName) = None"
  shows "transformApprovalForAllEvent h subName e output = Inr None"
  by (simp add: transformApprovalForAllEvent_def Let_def loc)

lemma onEvent_no_locator:
  assumes loc: "sn_poolLocator (unpackSubscriptionName h subName) = None"
  shows "fst (onEvent h query l subName e) = l \<and>
         notifications (snd (onEvent h query l subName e)) = []"
  unfolding onEvent_def
  by (auto simp: transformTokenPoolCreationEvent_no_locator [OF loc]
        transformTransferSingleEvent_no_locator [OF loc]
        transformApprovalForAllEvent_no_locator [OF loc]
        transformTransferBatchEvent_no_locator [OF loc]
        split: event_data.splits sum.splits)

subsection \<open>Batch expansion\<close>

lemma list_all2_map_eq:
  "list_all2 (\<lambda>x y. g x = f y) xs ys \<Longrightarrow> map g xs = map f ys"
  by (induction rule: list_all2_induct) simp_all

lemma transformTransferBatchEvent_ids:
  assumes ids: "\<forall>j < length (tb_ids (ev_data e)). StringToBigInt (tb_ids (ev_data e) ! j) \<noteq> None"
    and fid: "formatBlockchainEventId e = Inr base"
  shows "\<exists>l' msgs. transformTransferBatchEvent h query l subName e = (l', Inr msgs) \<and>
     list_all2 (\<lambda>m j. (\<exists>l0. snd (transformTransferSingleEvent h query l0 subName
                                  (batchMember e j) (Some j)) = Inr (Some m)) \<and>
                       messageId m = base @ ''/'' @ padStart 6 CHR ''0'' (decimal j))
        msgs (filter (yieldsMessage h query l subName e) [0..<length (tb_ids (ev_data e))])"
proof -
  from transformTransferBatchLoop_collects [OF ids fid, of h query subName 0 l "[]"]
  obtain l' ms where a: "transformTransferBatchEvent h query l subName e = (l', Inr ms)"
    and b: "list_all2 (\<lambda>m j. \<exists>l0. snd (transformTransferSingleEvent h query l0 subName
                                          (batchMember e j) (Some j)) = Inr (Some m))
             ms (filter (yieldsMessage h query l subName e) [0..<length (tb_ids (ev_data e))])"
    unfolding transformTransferBatchEvent_def by auto
  have fid': "\<And>j. formatBlockchainEventId (batchMember e j) = Inr base"
    using fid by (simp add: batchMember_def)
  have "list_all2 (\<lambda>m j. (\<exists>l0. snd (transformTransferSingleEvent h query l0 subName
                                  (batchMember e j) (Some j)) = Inr (Some m)) \<and>
                       messageId m = base @ ''/'' @ padStart 6 CHR ''0'' (decimal j))
        ms (filter (yieldsMessage h query l subName e) [0..<length (tb_ids (ev_data e))])"
    using b
  proof (rule list_all2_mono)
    fix m j
    assume "\<exists>l0. snd (transformTransferSingleEvent h query l0 subName
                        (batchMember e j) (Some j)) = Inr (Some m)"
    then obtain l0 where s: "snd (transformTransferSingleEvent h query l0 subName
                        (batchMember e j) (Some j)) = Inr (Some m)" by blast
    from transformTransferSingleEvent_messageId [OF s fid']
    have "messageId m = base @ ''/'' @ padStart 6 CHR ''0'' (decimal j)" by simp
    with s show "(\<exists>l0. snd (transformTransferSingleEvent h query l0 subName
                                  (batchMember e j) (Some j)) = Inr (Some m)) \<and>
                       messageId m = base @ ''/'' @ padStart 6 CHR ''0'' (decimal j)"
      by blast
  qed
  with a show ?thesis by blast
qed

text \<open>The loop, when a member throws: the exception leaves the loop, whatever the
  earlier members yielded. The only exception of the single-transfer transform is the
  SyntaxError of \<open>BigInt\<close>, and whether it is thrown does not depend on the listener's
  cache.\<close>

lemma transformTransferSingleEvent_error:
  "snd (transformTransferSingleEvent h query l subName e idx) = Inl err \<Longrightarrow> err = SyntaxError"
  by (auto simp: transformTransferSingleEvent_def Let_def unpackTokenId_def BigInt_def
        formatBlockchainEventId_def
        split: prod.splits option.splits sum.splits if_splits)

lemma memberThrows_indep:
  "memberThrows h query l subName e i = memberThrows h query2 l2 subName e i"
proof -
  have "\<And>r. (case r of Inl err \<Rightarrow> True | Inr x \<Rightarrow> False) =
            (case map_sum id (map_option messageId) r of Inl err \<Rightarrow> True | Inr x \<Rightarrow> False)"
    by (auto split: sum.splits)
  then show ?thesis
    unfolding memberThrows_def
    by (metis transformTransferSingleEvent_outcome_indep)
qed

lemma transformTransferBatchLoop_throws:
  assumes "\<exists>j. i \<le> j \<and> j < length (tb_ids (ev_data e)) \<and> memberThrows h query l subName e j"
  shows "\<exists>l'. transformTransferBatchLoop h query subName e i l messages = (l', Inl SyntaxError)"
  using assms
proof (induction "length (tb_ids (ev_data e)) - i" arbitrary: i l messages)
  case 0
  then show ?case by auto
next
  case (Suc k)
  let ?N = "length (tb_ids (ev_data e))"
  from Suc.hyps(2) have lt: "i < ?N" and k: "k = ?N - Suc i" by simp_all
  obtain l' r where
    s: "transformTransferSingleEvent h query l subName (batchMember e i) (Some i) = (l', r)"
    by (cases "transformTransferSingleEvent h query l subName (batchMember e i) (Some i)")
  show ?case
  proof (cases r)
    case (Inl err)
    have "err = SyntaxError"
      by (rule transformTransferSingleEvent_error [of h query l subName "batchMember e i" "Some i"])
         (simp add: s Inl)
    then have "transformTransferBatchLoop h query subName e i l messages = (l', Inl SyntaxError)"
      by (subst transformTransferBatchLoop.simps) (simp add: lt s Inl)
    then show ?thesis by blast
  next
    case (Inr x)
    have nt: "\<not> memberThrows h query l subName e i"
      by (simp add: memberThrows_def s Inr)
    from Suc.prems obtain j where j: "i \<le> j" "j < ?N" "memberThrows h query l subName e j"
      by blast
    with nt have "Suc i \<le> j" by (cases "j = i") auto
    with j have ex: "\<exists>j. Suc i \<le> j \<and> j < ?N \<and> memberThrows h query l' subName e j"
      using memberThrows_indep [of h query l' subName e j query l] by blast
    show ?thesis
    proof (cases x)
      case None
      have "transformTransferBatchLoop h query subName e i l messages
              = transformTransferBatchLoop h query subName e (Suc i) l' messages"
        by (subst transformTransferBatchLoop.simps) (simp add: lt s Inr None)
      with Suc.hyps(1) [OF k ex] show ?thesis by simp
    next
      case (Some m)
      have "transformTransferBatchLoop h query subName e i l messages
              = transformTransferBatchLoop h query subName e (Suc i) l' (messages @ [m])"
        by (subst transformTransferBatchLoop.simps) (simp add: lt s Inr Some)
      with Suc.hyps(1) [OF k ex] show ?thesis by simp
    qed
  qed
qed

lemma transformTransferBatchEvent_throws:
  assumes "\<exists>j < length (tb_ids (ev_data e)). memberThrows h query l subName e j"
  shows "\<exists>l'. transformTransferBatchEvent h query l subName e = (l', Inl SyntaxError)"
  unfolding transformTransferBatchEvent_def
  by (rule transformTransferBatchLoop_throws) (use assms in auto)

text \<open>The batch transform, when every id and the transaction index are integer
  literals.\<close>

lemma transformTransferBatchEvent_returns:
  assumes ids: "\<forall>j < length (tb_ids (ev_data e)). StringToBigInt (tb_ids (ev_data e) ! j) \<noteq> None"
    and fid: "formatBlockchainEventId e = Inr base"
  shows "\<exists>l' msgs. transformTransferBatchEvent h query l subName e = (l', Inr msgs) \<and>
     length msgs \<le> length (tb_ids (ev_data e)) \<and>
     list_all2 (\<lambda>m j. (\<exists>l0. snd (transformTransferSingleEvent h query l0 subName
                                  (batchMember e j) (Some j)) = Inr (Some m)) \<and>
                       messageId m = base @ ''/'' @ padStart 6 CHR ''0'' (decimal j))
        msgs (filter (yieldsMessage h query l subName e) [0..<length (tb_ids (ev_data e))]) \<and>
     distinct (map messageId msgs) \<and>
     (\<forall>query2 l2. \<exists>l2' msgs2.
        transformTransferBatchEvent h query2 l2 subName e = (l2', Inr msgs2) \<and>
        map messageId msgs2 = map messageId msgs)"
proof -
  let ?N = "length (tb_ids (ev_data e))"
  let ?f = "\<lambda>j. base @ ''/'' @ padStart 6 CHR ''0'' (decimal j)"
  let ?js = "filter (yieldsMessage h query l subName e) [0..<?N]"
  from transformTransferBatchEvent_ids [OF ids fid, of h query l subName]
  obtain l' msgs where a: "transformTransferBatchEvent h query l subName e = (l', Inr msgs)"
    and b: "list_all2 (\<lambda>m j. (\<exists>l0. snd (transformTransferSingleEvent h query l0 subName
                                  (batchMember e j) (Some j)) = Inr (Some m)) \<and>
                       messageId m = ?f j) msgs ?js"
    by blast
  from b have "list_all2 (\<lambda>m j. messageId m = ?f j) msgs ?js"
    by (rule list_all2_mono) blast
  then have m: "map messageId msgs = map ?f ?js" by (rule list_all2_map_eq)
  have len: "length msgs \<le> ?N"
  proof -
    have "length msgs = length ?js" using b by (rule list_all2_lengthD)
    also have "\<dots> \<le> length [0..<?N]" by (rule length_filter_le)
    finally show ?thesis by simp
  qed
  have "inj_on ?f (set ?js)"
    by (rule inj_on_subset [OF subIndex_inj]) simp
  then have d: "distinct (map messageId msgs)"
    unfolding m by (simp only: distinct_map distinct_filter distinct_upt simp_thms)
  have r: "\<forall>query2 l2. \<exists>l2' msgs2.
        transformTransferBatchEvent h query2 l2 subName e = (l2', Inr msgs2) \<and>
        map messageId msgs2 = map messageId msgs"
  proof (intro allI)
    fix query2 l2
    from transformTransferBatchEvent_ids [OF ids fid, of h query2 l2 subName]
    obtain l2' msgs2 where
      a2: "transformTransferBatchEvent h query2 l2 subName e = (l2', Inr msgs2)"
      and b2: "list_all2 (\<lambda>m j. (\<exists>l0. snd (transformTransferSingleEvent h query2 l0 subName
                                  (batchMember e j) (Some j)) = Inr (Some m)) \<and>
                       messageId m = ?f j)
                 msgs2 (filter (yieldsMessage h query2 l2 subName e) [0..<?N])"
      by blast
    have y: "yieldsMessage h query2 l2 subName e = yieldsMessage h query l subName e"
      by (rule ext) (rule yieldsMessage_indep)
    from b2 have "list_all2 (\<lambda>m j. messageId m = ?f j) msgs2 ?js"
      unfolding y by (rule list_all2_mono) blast
    then have "map messageId msgs2 = map ?f ?js" by (rule list_all2_map_eq)
    with a2 m show "\<exists>l2' msgs2.
        transformTransferBatchEvent h query2 l2 subName e = (l2', Inr msgs2) \<and>
        map messageId msgs2 = map messageId msgs" by simp
  qed
  from a len b d r show ?thesis by blast
qed

text \<open>
  Claim C4, amended. For a batch-transfer event with \<open>N\<close> ids, in two parts.

  When all the ids are integer literals and the event has the base identity \<open>base\<close>
  (the transaction index is an integer literal): the batch transform returns at most
  \<open>N\<close> messages, one for each member on which the single-transfer transform yields a
  message, in the order of the members, the others being dropped; the message of
  member \<open>j\<close> has the identity \<open>base\<close>, a slash, and the decimal index \<open>j\<close> padded
  with zeros to six digits; the identities are pairwise distinct; and the transform
  run again, from any state of the URI cache and with any answers of the chain client,
  returns messages with the same identities.

  When the single-transfer transform throws on some member (in some state of the URI
  cache, hence in every state): the batch transform throws a SyntaxError, and no
  notification is produced, whatever the earlier members yielded.
\<close>

theorem transformTransferBatchEvent_expansion:
  "((\<forall>j < length (tb_ids (ev_data e)). StringToBigInt (tb_ids (ev_data e) ! j) \<noteq> None) \<and>
    formatBlockchainEventId e = Inr base \<longrightarrow>
    (\<exists>l' msgs. transformTransferBatchEvent h query l subName e = (l', Inr msgs) \<and>
     length msgs \<le> length (tb_ids (ev_data e)) \<and>
     list_all2 (\<lambda>m j. (\<exists>l0. snd (transformTransferSingleEvent h query l0 subName
                                  (batchMember e j) (Some j)) = Inr (Some m)) \<and>
                       messageId m = base @ ''/'' @ padStart 6 CHR ''0'' (decimal j))
        msgs (filter (yieldsMessage h query l subName e) [0..<length (tb_ids (ev_data e))]) \<and>
     distinct (map messageId msgs) \<and>
     (\<forall>query2 l2. \<exists>l2' msgs2.
        transformTransferBatchEvent h query2 l2 subName e = (l2', Inr msgs2) \<and>
        map messageId msgs2 = map messageId msgs))) \<and>
   ((\<exists>j < length (tb_ids (ev_data e)). \<exists>query0 l0. memberThrows h query0 l0 subName e j) \<longrightarrow>
    (\<exists>l'. transformTransferBatchEvent h query l subName e = (l', Inl SyntaxError)) \<and>
    notifications (map_sum id (map Some) (snd (transformTransferBatchEvent h query l subName e))) = [])"
proof (intro conjI impI)
  assume "(\<forall>j < length (tb_ids (ev_data e)). StringToBigInt (tb_ids (ev_data e) ! j) \<noteq> None) \<and>
    formatBlockchainEventId e = Inr base"
  then show "\<exists>l' msgs. transformTransferBatchEvent h query l subName e = (l', Inr msgs) \<and>
     length msgs \<le> length (tb_ids (ev_data e)) \<and>
     list_all2 (\<lambda>m j. (\<exists>l0. snd (transformTransferSingleEvent h query l0 subName
                                  (batchMember e j) (Some j)) = Inr (Some m)) \<and>
                       messageId m = base @ ''/'' @ padStart 6 CHR ''0'' (decimal j))
        msgs (filter (yieldsMessage h query l subName e) [0..<length (tb_ids (ev_data e))]) \<and>
     distinct (map messageId msgs) \<and>
     (\<forall>query2 l2. \<exists>l2' msgs2.
        transformTransferBatchEvent h query2 l2 subName e = (l2', Inr msgs2) \<and>
        map messageId msgs2 = map messageId msgs)"
    using transformTransferBatchEvent_returns [of e base h query l subName] by blast
next
  assume t: "\<exists>j < length (tb_ids (ev_data e)). \<exists>query0 l0. memberThrows h query0 l0 subName e j"
  then have "\<exists>j < length (tb_ids (ev_data e)). memberThrows h query l subName e j"
    using memberThrows_indep [of h query l subName e] by blast
  then obtain l' where b: "transformTransferBatchEvent h query l subName e = (l', Inl SyntaxError)"
    using transformTransferBatchEvent_throws by blast
  then show "\<exists>l'. transformTransferBatchEvent h query l subName e = (l', Inl SyntaxError)"
    by blast
  from b show "notifications (map_sum id (map Some)
                 (snd (transformTransferBatchEvent h query l subName e))) = []"
    by (simp add: notifications_def)
qed

subsection \<open>The model on concrete events\<close>

lemmas sample_eval = sampleHelpers_def sampleListener_def sampleEvent_def ZERO_ADDRESS_def
  BASE_SUBSCRIPTION_NAME_def TOKEN_STANDARD_def tokenCreateEventSignatureOld_def
  tokenCreateEventSignature_def transferSingleEventSignature_def
  transferBatchEventSignature_def approvalForAllEventSignature_def

lemmas listener_eval = formatBlockchainEventId_def join3_def blockchainEvent_def
  blockchainInfo_def stripParamsFromSignature_def getTokenUri_def decodeHex_def
  batchMember_def nthOpt_def withData_def Let_def

lemma decimal_small: "n < 10 \<Longrightarrow> decimal n = [digitChar n]"
  by (subst decimal.simps) simp

lemma decimal_large: "\<not> n < 10 \<Longrightarrow> decimal n = decimal (n div 10) @ [digitChar (n mod 10)]"
  by (subst decimal.simps) simp

lemma replicate_numeral: "replicate (numeral k) x = x # replicate (pred_numeral k) x"
  by (simp add: numeral_eq_Suc)

lemmas decimal_eval = decimal_small decimal_large replicate_numeral

lemma unpackTokenId_idF1:
  "unpackTokenId idF1 = Inr \<lparr> uid_isFungible = True, uid_poolId = ''F1'', uid_tokenIndex = ''0'' \<rparr>"
  by (simp add: codec_eval idF1_def decimal_eq_iff)

lemma unpackTokenId_idN1:
  "unpackTokenId idN1 = Inr \<lparr> uid_isFungible = False, uid_poolId = ''N1'', uid_tokenIndex = ''0'' \<rparr>"
  by (simp add: codec_eval idN1_def decimal_eq_iff)

lemma unpackTokenId_x: "unpackTokenId ''x'' = Inl SyntaxError"
  by (simp add: codec_eval)

lemma StringToBigInt_ids: "StringToBigInt idF1 \<noteq> None" "StringToBigInt idN1 \<noteq> None"
  by (simp_all add: js_eval idF1_def idN1_def)

lemma sample_unpackSubscriptionName:
  "sn_poolLocator (unpackSubscriptionName sampleHelpers ''F1:TransferSingle'') = Some ''F1''"
  "sn_poolLocator (unpackSubscriptionName sampleHelpers ''F1:TransferBatch'') = Some ''F1''"
  "sn_poolLocator (unpackSubscriptionName sampleHelpers ''N1:TransferSingle'') = Some ''N1''"
  "sn_poolLocator (unpackSubscriptionName sampleHelpers ''base:TokenPoolCreation'') = Some ''base''"
  "sn_poolLocator (unpackSubscriptionName sampleHelpers ''legacy'') = None"
  by (simp_all add: sampleHelpers_def)

lemma sample_unpackPoolLocator: "pl_poolId (unpackPoolLocator sampleHelpers s) = s"
  by (simp add: sampleHelpers_def)

lemma sample_formatBlockchainEventId:
  "formatBlockchainEventId (sampleEvent sig ''0x1f'' d) = Inr ''000000000007/000031/000002''"
  "formatBlockchainEventId (sampleEvent sig ''0'' d) = Inr ''000000000007/000000/000002''"
  "formatBlockchainEventId (sampleEvent sig ''x'' d) = Inl SyntaxError"
  by (simp_all add: formatBlockchainEventId_def sampleEvent_def js_eval join3_def decimal_eval Let_def)

lemma sampleEvent_sel [simp]:
  "ev_signature (sampleEvent sig tx d) = sig"
  "ev_transactionIndex (sampleEvent sig tx d) = tx"
  "ev_data (sampleEvent sig tx d) = d"
  "ev_inputArgs_data (sampleEvent sig tx d) = None"
  "ev_blockNumber (sampleEvent sig tx d) = Some ''7''"
  "ev_logIndex (sampleEvent sig tx d) = Some ''2''"
  by (simp_all add: sampleEvent_def)

subsection \<open>Classification, pool-match guard, dispatch\<close>

text \<open>
  Claim C6. A single-transfer event whose token id unpacks to a pool id other than the
  pool id of the subscription's pool locator yields no notification: the transform
  returns \<open>undefined\<close> (also for a member of a batch), and \<open>onEvent\<close> hands no message to
  \<open>process\<close>.
\<close>

theorem transferSingle_pool_mismatch:
  assumes sig: "ev_signature e = transferSingleEventSignature"
    and d: "ev_data e = TransferSingleData d"
    and u: "unpackTokenId (ts_id d) = Inr u"
    and loc: "sn_poolLocator (unpackSubscriptionName h subName) = Some loc"
    and pool: "pl_poolId (unpackPoolLocator h loc) \<noteq> uid_poolId u"
  shows "transformTransferSingleEvent h query l subName (withData e d) idx = (l, Inr None) \<and>
         onEvent h query l subName e = (l, Inr [None]) \<and>
         notifications (snd (onEvent h query l subName e)) = []"
proof -
  have s: "\<And>idx. transformTransferSingleEvent h query l subName (withData e d) idx = (l, Inr None)"
    by (rule transformTransferSingleEvent_mismatch [OF _ loc pool]) (simp add: u)
  have o: "onEvent h query l subName e = (l, Inr [None])"
    by (simp add: onEvent_def sig d s transferSingleEventSignature_def
          tokenCreateEventSignatureOld_def tokenCreateEventSignature_def)
  show ?thesis by (simp add: s o)
qed

theorem transferSingle_pool_mismatch_witness:
  "onEvent sampleHelpers (\<lambda>k. None) sampleListener ''N1:TransferSingle''
     (sampleEvent transferSingleEventSignature ''0''
        (TransferSingleData \<lparr> ts_from = ZERO_ADDRESS, ts_to = ''0xABC'', ts_operator = ''0xop'',
                               ts_id = idF1, ts_value = Some ''5'' \<rparr>))
   = (sampleListener, Inr [None])"
proof -
  let ?d = "\<lparr> ts_from = ZERO_ADDRESS, ts_to = ''0xABC'', ts_operator = ''0xop'',
              ts_id = idF1, ts_value = Some ''5'' \<rparr>"
  let ?e = "sampleEvent transferSingleEventSignature ''0'' (TransferSingleData ?d)"
  have sig: "ev_signature ?e = transferSingleEventSignature" by simp
  have d: "ev_data ?e = TransferSingleData ?d" by simp
  have u: "unpackTokenId (ts_id ?d) = Inr \<lparr> uid_isFungible = True, uid_poolId = ''F1'', uid_tokenIndex = ''0'' \<rparr>"
    by (simp add: unpackTokenId_idF1)
  have pool: "pl_poolId (unpackPoolLocator sampleHelpers ''N1'')
                \<noteq> uid_poolId \<lparr> uid_isFungible = True, uid_poolId = ''F1'', uid_tokenIndex = ''0'' \<rparr>"
    by (simp add: sample_unpackPoolLocator)
  from transferSingle_pool_mismatch [OF sig d u sample_unpackSubscriptionName(3) pool]
  show ?thesis by blast
qed

text \<open>
  Claim C3, as stated, fails: an event behind both guards whose transaction index is not
  an integer literal makes \<open>formatBlockchainEventId\<close> throw, and no notification is
  produced.
\<close>

theorem transferSingle_transaction_index_not_literal:
  "unpackTokenId idF1 =
     Inr \<lparr> uid_isFungible = True, uid_poolId = ''F1'', uid_tokenIndex = ''0'' \<rparr> \<and>
   sn_poolLocator (unpackSubscriptionName sampleHelpers ''F1:TransferSingle'') = Some ''F1'' \<and>
   pl_poolId (unpackPoolLocator sampleHelpers ''F1'') = ''F1'' \<and>
   transformTransferSingleEvent sampleHelpers (\<lambda>k. None) sampleListener ''F1:TransferSingle''
     (sampleEvent transferSingleEventSignature ''x''
        \<lparr> ts_from = ZERO_ADDRESS, ts_to = ''0xABC'', ts_operator = ''0xop'',
          ts_id = idF1, ts_value = Some ''5'' \<rparr>) None
   = (sampleListener, Inl SyntaxError)"
  by (simp add: unpackTokenId_idF1 sample_unpackSubscriptionName sample_unpackPoolLocator
        transformTransferSingleEvent_def sample_formatBlockchainEventId Let_def
        ZERO_ADDRESS_def)

text \<open>
  Claim C3, amended. For a single-transfer event whose transaction index is an integer
  literal, behind the pool-match guard and under a subscription name with a pool
  locator: the transform returns; with \<open>from\<close> and \<open>to\<close> both the zero address there is no
  notification; otherwise there is exactly one: a mint carrying \<open>to\<close> when \<open>from\<close> is
  the zero address, else a burn carrying \<open>from\<close> when \<open>to\<close> is the zero address, else a
  transfer carrying both.
\<close>

theorem transformTransferSingleEvent_classification:
  assumes u: "unpackTokenId (ts_id (ev_data e)) = Inr u"
    and loc: "sn_poolLocator (unpackSubscriptionName h subName) = Some loc"
    and pool: "pl_poolId (unpackPoolLocator h loc) = uid_poolId u"
    and tx: "StringToBigInt (ev_transactionIndex e) = Some tx"
  shows "\<exists>l' r. transformTransferSingleEvent h query l subName e idx = (l', Inr r) \<and>
     length (notifications (Inr [r])) =
       (if ts_from (ev_data e) = ZERO_ADDRESS \<and> ts_to (ev_data e) = ZERO_ADDRESS then 0 else 1) \<and>
     (if ts_from (ev_data e) = ZERO_ADDRESS \<and> ts_to (ev_data e) = ZERO_ADDRESS then r = None
      else if ts_from (ev_data e) = ZERO_ADDRESS then
        (\<exists>t. r = Some \<lparr> msg_event = ''token-mint'', msg_data = TokenTransfer t \<rparr> \<and>
              tt_to t = Some (ts_to (ev_data e)) \<and> tt_from t = None)
      else if ts_to (ev_data e) = ZERO_ADDRESS then
        (\<exists>t. r = Some \<lparr> msg_event = ''token-burn'', msg_data = TokenTransfer t \<rparr> \<and>
              tt_from t = Some (ts_from (ev_data e)) \<and> tt_to t = None)
      else
        (\<exists>t. r = Some \<lparr> msg_event = ''token-transfer'', msg_data = TokenTransfer t \<rparr> \<and>
              tt_from t = Some (ts_from (ev_data e)) \<and> tt_to t = Some (ts_to (ev_data e))))"
proof (cases "ts_from (ev_data e) = ZERO_ADDRESS \<and> ts_to (ev_data e) = ZERO_ADDRESS")
  case True
  then show ?thesis
    using transformTransferSingleEvent_both_zero [OF u, of h query l subName idx] by simp
next
  case False
  note fid = formatBlockchainEventId_literal [OF tx]
  from transformTransferSingleEvent_guarded [OF u loc pool fid False, of query l idx]
  obtain l' t where
    r: "transformTransferSingleEvent h query l subName e idx =
          (l', Inr (Some \<lparr> msg_event =
                               (if ts_from (ev_data e) = ZERO_ADDRESS then ''token-mint''
                                else if ts_to (ev_data e) = ZERO_ADDRESS then ''token-burn''
                                else ''token-transfer''),
                             msg_data = TokenTransfer t \<rparr>))"
    and f: "tt_from t = (if ts_from (ev_data e) = ZERO_ADDRESS then None
                      else Some (ts_from (ev_data e)))"
    and t: "tt_to t = (if ts_from (ev_data e) \<noteq> ZERO_ADDRESS \<and> ts_to (ev_data e) = ZERO_ADDRESS
                    then None else Some (ts_to (ev_data e)))"
    by blast
  show ?thesis
    using False by (auto simp: r f t)
qed

theorem transformTransferSingleEvent_classification_witness:
  "\<exists>l' t. transformTransferSingleEvent sampleHelpers (\<lambda>k. None) sampleListener ''F1:TransferSingle''
     (sampleEvent transferSingleEventSignature ''0x1f''
        \<lparr> ts_from = ZERO_ADDRESS, ts_to = ''0xABC'', ts_operator = ''0xop'',
          ts_id = idF1, ts_value = Some ''5'' \<rparr>) None
     = (l', Inr (Some \<lparr> msg_event = ''token-mint'', msg_data = TokenTransfer t \<rparr>)) \<and>
     tt_to t = Some ''0xABC'' \<and> tt_from t = None"
proof -
  let ?d = "\<lparr> ts_from = ZERO_ADDRESS, ts_to = ''0xABC'', ts_operator = ''0xop'',
              ts_id = idF1, ts_value = Some ''5'' \<rparr>"
  let ?e = "sampleEvent transferSingleEventSignature ''0x1f'' ?d"
  let ?u = "\<lparr> uid_isFungible = True, uid_poolId = ''F1'', uid_tokenIndex = ''0'' \<rparr>"
  have u: "unpackTokenId (ts_id (ev_data ?e)) = Inr ?u"
    by (simp add: unpackTokenId_idF1)
  have pool: "pl_poolId (unpackPoolLocator sampleHelpers ''F1'') = uid_poolId ?u"
    by (simp add: sample_unpackPoolLocator)
  have tx: "StringToBigInt (ev_transactionIndex ?e) = Some 31"
    by (simp add: js_eval)
  from transformTransferSingleEvent_classification
         [OF u sample_unpackSubscriptionName(1) pool tx, of "\<lambda>k. None" sampleListener None]
  show ?thesis by (auto simp: ZERO_ADDRESS_def)
qed

text \<open>
  Claim C4, as stated, fails: when a member of the batch throws (its id is not an
  integer literal), the batch transform throws, and the messages of the earlier
  members are not produced.
\<close>

theorem transformTransferBatchEvent_member_throws:
  "(\<exists>m. snd (transformTransferSingleEvent sampleHelpers (\<lambda>k. None) sampleListener
              ''F1:TransferBatch''
              (batchMember
                 (sampleEvent transferBatchEventSignature ''0''
                    \<lparr> tb_from = ZERO_ADDRESS, tb_to = ''0xABC'', tb_operator = ''0xop'',
                      tb_ids = [idF1, ''x''], tb_values = [''5'', ''6''] \<rparr>) 0)
              (Some 0)) = Inr (Some m)) \<and>
   transformTransferBatchEvent sampleHelpers (\<lambda>k. None) sampleListener ''F1:TransferBatch''
     (sampleEvent transferBatchEventSignature ''0''
        \<lparr> tb_from = ZERO_ADDRESS, tb_to = ''0xABC'', tb_operator = ''0xop'',
          tb_ids = [idF1, ''x''], tb_values = [''5'', ''6''] \<rparr>)
   = (sampleListener, Inl SyntaxError)"
proof -
  let ?e = "sampleEvent transferBatchEventSignature ''0''
        \<lparr> tb_from = ZERO_ADDRESS, tb_to = ''0xABC'', tb_operator = ''0xop'',
          tb_ids = [idF1, ''x''], tb_values = [''5'', ''6''] \<rparr>"
  let ?u = "\<lparr> uid_isFungible = True, uid_poolId = ''F1'', uid_tokenIndex = ''0'' \<rparr>"
  have u: "unpackTokenId (ts_id (ev_data (batchMember ?e 0))) = Inr ?u"
    by (simp add: batchMember_def unpackTokenId_idF1)
  have pool: "pl_poolId (unpackPoolLocator sampleHelpers ''F1'') = uid_poolId ?u"
    by (simp add: sample_unpackPoolLocator)
  have fid: "formatBlockchainEventId (batchMember ?e 0) = Inr ''000000000007/000000/000002''"
    by (simp add: batchMember_def sample_formatBlockchainEventId)
  have nz: "\<not> (ts_from (ev_data (batchMember ?e 0)) = ZERO_ADDRESS
               \<and> ts_to (ev_data (batchMember ?e 0)) = ZERO_ADDRESS)"
    by (simp add: batchMember_def ZERO_ADDRESS_def)
  from transformTransferSingleEvent_guarded
         [OF u sample_unpackSubscriptionName(2) pool fid nz, of "\<lambda>k. None" sampleListener "Some 0"]
  obtain l' m where
    s0: "transformTransferSingleEvent sampleHelpers (\<lambda>k. None) sampleListener ''F1:TransferBatch''
           (batchMember ?e 0) (Some 0) = (l', Inr (Some m))"
    by blast
  have l': "l' = sampleListener"
    using s0 by (simp add: transformTransferSingleEvent_def Let_def u
                   sample_unpackSubscriptionName pool fid split: if_splits)
  have s1: "transformTransferSingleEvent sampleHelpers (\<lambda>k. None) sampleListener ''F1:TransferBatch''
           (batchMember ?e (Suc 0)) (Some (Suc 0)) = (sampleListener, Inl SyntaxError)"
    by (simp add: transformTransferSingleEvent_def batchMember_def unpackTokenId_x)
  have "transformTransferBatchEvent sampleHelpers (\<lambda>k. None) sampleListener ''F1:TransferBatch'' ?e
          = (sampleListener, Inl SyntaxError)"
    unfolding transformTransferBatchEvent_def
    by (subst transformTransferBatchLoop.simps, simp add: s0 l' del: One_nat_def)
       (subst transformTransferBatchLoop.simps, simp add: s1)
  with s0 show ?thesis by (metis snd_conv)
qed

theorem transformTransferBatchEvent_expansion_witness:
  "(\<exists>l' msgs.
     transformTransferBatchEvent sampleHelpers (\<lambda>k. None) sampleListener ''F1:TransferBatch''
       (sampleEvent transferBatchEventSignature ''0''
          \<lparr> tb_from = ZERO_ADDRESS, tb_to = ''0xABC'', tb_operator = ''0xop'',
            tb_ids = [idF1, idN1, idF1], tb_values = [''5'', ''6''] \<rparr>)
     = (l', Inr msgs) \<and> length msgs \<le> 3 \<and> distinct (map messageId msgs)) \<and>
   memberThrows sampleHelpers (\<lambda>k. None) sampleListener ''F1:TransferBatch''
       (sampleEvent transferBatchEventSignature ''0''
          \<lparr> tb_from = ZERO_ADDRESS, tb_to = ''0xABC'', tb_operator = ''0xop'',
            tb_ids = [idF1, idN1, ''0x''], tb_values = [''5'', ''6''] \<rparr>) 2 \<and>
   (\<exists>l'. transformTransferBatchEvent sampleHelpers (\<lambda>k. None) sampleListener ''F1:TransferBatch''
       (sampleEvent transferBatchEventSignature ''0''
          \<lparr> tb_from = ZERO_ADDRESS, tb_to = ''0xABC'', tb_operator = ''0xop'',
            tb_ids = [idF1, idN1, ''0x''], tb_values = [''5'', ''6''] \<rparr>)
     = (l', Inl SyntaxError))"
proof -
  let ?e = "sampleEvent transferBatchEventSignature ''0''
          \<lparr> tb_from = ZERO_ADDRESS, tb_to = ''0xABC'', tb_operator = ''0xop'',
            tb_ids = [idF1, idN1, idF1], tb_values = [''5'', ''6''] \<rparr>"
  let ?e2 = "sampleEvent transferBatchEventSignature ''0''
          \<lparr> tb_from = ZERO_ADDRESS, tb_to = ''0xABC'', tb_operator = ''0xop'',
            tb_ids = [idF1, idN1, ''0x''], tb_values = [''5'', ''6''] \<rparr>"
  have ids: "\<forall>j < length (tb_ids (ev_data ?e)). StringToBigInt (tb_ids (ev_data ?e) ! j) \<noteq> None"
    using StringToBigInt_ids by (auto simp: less_Suc_eq numeral_3_eq_3)
  have fid: "formatBlockchainEventId ?e = Inr ''000000000007/000000/000002''"
    by (rule sample_formatBlockchainEventId)
  have u: "unpackTokenId ''0x'' = Inl SyntaxError"
    by (simp add: unpackTokenId_def BigInt_def js_eval)
  have t: "memberThrows sampleHelpers (\<lambda>k. None) sampleListener ''F1:TransferBatch'' ?e2 2"
    by (simp add: memberThrows_def transformTransferSingleEvent_def batchMember_def u)
  then have ex: "\<exists>j < length (tb_ids (ev_data ?e2)). \<exists>query0 l0.
              memberThrows sampleHelpers query0 l0 ''F1:TransferBatch'' ?e2 j"
    by (intro exI [of _ 2] conjI exI [of _ "\<lambda>k. None"] exI [of _ sampleListener]) simp_all
  from transformTransferBatchEvent_expansion [of ?e "''000000000007/000000/000002''"
         sampleHelpers "\<lambda>k. None" sampleListener "''F1:TransferBatch''"] ids fid
  have a: "\<exists>l' msgs.
     transformTransferBatchEvent sampleHelpers (\<lambda>k. None) sampleListener ''F1:TransferBatch'' ?e
     = (l', Inr msgs) \<and> length msgs \<le> 3 \<and> distinct (map messageId msgs)"
    by auto
  from transformTransferBatchEvent_expansion [of ?e2 "[]"
         sampleHelpers "\<lambda>k. None" sampleListener "''F1:TransferBatch''"] ex
  have b: "\<exists>l'. transformTransferBatchEvent sampleHelpers (\<lambda>k. None) sampleListener
                  ''F1:TransferBatch'' ?e2 = (l', Inl SyntaxError)"
    by blast
  from a t b show ?thesis by blast
qed

text \<open>
  Claim C8, as stated, fails: the single-transfer and pool-creation transforms unpack the
  token id before they look at the subscription name, so an event whose id is not
  an integer literal throws, also under a name without a pool locator.
\<close>

theorem unparseable_subscription_throws:
  "sn_poolLocator (unpackSubscriptionName sampleHelpers ''legacy'') = None \<and>
   onEvent sampleHelpers (\<lambda>k. None) sampleListener ''legacy''
     (sampleEvent transferSingleEventSignature ''0''
        (TransferSingleData \<lparr> ts_from = ZERO_ADDRESS, ts_to = ''0xABC'', ts_operator = ''0xop'',
                               ts_id = ''x'', ts_value = Some ''5'' \<rparr>))
   = (sampleListener, Inl SyntaxError)"
  by (simp add: sample_unpackSubscriptionName onEvent_def
        transformTransferSingleEvent_no_locator unpackTokenId_x
        transferSingleEventSignature_def tokenCreateEventSignatureOld_def
        tokenCreateEventSignature_def)

text \<open>
  Claim C8, amended. Under a subscription name that unpacks with an absent pool
  locator, no event produces a notification and the listener is left as it was. The
  approval transform returns \<open>undefined\<close>; the pool-creation and single-transfer
  transforms return \<open>undefined\<close> when the token id of the event is an integer literal and
  throw the SyntaxError of \<open>BigInt\<close> otherwise; the batch transform returns the empty
  list when every id is an integer literal.
\<close>

theorem unparseable_subscription_no_notification:
  assumes loc: "sn_poolLocator (unpackSubscriptionName h subName) = None"
  shows "fst (onEvent h query l subName e) = l \<and>
         notifications (snd (onEvent h query l subName e)) = [] \<and>
         transformApprovalForAllEvent h subName e ad = Inr None \<and>
         transformTokenPoolCreationEvent h subName pe =
           (if StringToBigInt (tpc_type_id (ev_data pe)) = None then Inl SyntaxError
            else Inr None) \<and>
         transformTransferSingleEvent h query l subName se idx =
           (l, if StringToBigInt (ts_id (ev_data se)) = None then Inl SyntaxError
               else Inr None) \<and>
         transformTransferBatchEvent h query l subName be =
           (l, if list_all (\<lambda>i. StringToBigInt i \<noteq> None) (tb_ids (ev_data be))
               then Inr [] else Inl SyntaxError)"
proof -
  have p: "transformTokenPoolCreationEvent h subName pe =
           (if StringToBigInt (tpc_type_id (ev_data pe)) = None then Inl SyntaxError
            else Inr None)"
    using unpackTokenId_literal [of "tpc_type_id (ev_data pe)"]
    by (auto simp: transformTokenPoolCreationEvent_no_locator [OF loc] unpackTokenId_not_literal)
  have s: "transformTransferSingleEvent h query l subName se idx =
           (l, if StringToBigInt (ts_id (ev_data se)) = None then Inl SyntaxError
               else Inr None)"
    using unpackTokenId_literal [of "ts_id (ev_data se)"]
    by (auto simp: transformTransferSingleEvent_no_locator [OF loc] unpackTokenId_not_literal)
  show ?thesis
    using onEvent_no_locator [OF loc, of query l e]
      transformApprovalForAllEvent_no_locator [OF loc, of e ad] p s
      transformTransferBatchEvent_no_locator [OF loc, of query l be]
    by simp
qed

theorem unparseable_subscription_no_notification_witness:
  "notifications (snd (onEvent sampleHelpers (\<lambda>k. None) sampleListener ''legacy''
      (sampleEvent approvalForAllEventSignature ''0''
         (ApprovalForAllData \<lparr> afa_account = Some ''0xa'', afa_operator = Some ''0xop'',
                                afa_approved = Some True \<rparr>)))) = [] \<and>
   transformTransferSingleEvent sampleHelpers (\<lambda>k. None) sampleListener ''legacy''
      (sampleEvent transferSingleEventSignature ''0''
         \<lparr> ts_from = ZERO_ADDRESS, ts_to = ''0xABC'', ts_operator = ''0xop'',
           ts_id = idF1, ts_value = Some ''5'' \<rparr>) None
     = (sampleListener, Inr None)"
  using unparseable_subscription_no_notification
          [OF sample_unpackSubscriptionName(5), of "\<lambda>k. None" sampleListener
             "sampleEvent approvalForAllEventSignature ''0''
                (ApprovalForAllData \<lparr> afa_account = Some ''0xa'', afa_operator = Some ''0xop'',
                                       afa_approved = Some True \<rparr>)"
             _ _
             "sampleEvent transferSingleEventSignature ''0''
                \<lparr> ts_from = ZERO_ADDRESS, ts_to = ''0xABC'', ts_operator = ''0xop'',
                  ts_id = idF1, ts_value = Some ''5'' \<rparr>"
             None]
    StringToBigInt_ids(1)
  by simp

lemma formatBlockchainEventId_signature [simp]:
  "formatBlockchainEventId (e\<lparr> ev_signature := s \<rparr>) = formatBlockchainEventId e"
  by (simp add: formatBlockchainEventId_def Let_def split: sum.splits)

text \<open>
  Claim C9. An event with the legacy signature \<open>TokenCreate(address,uint256,bytes)\<close> is
  dispatched as one with \<open>TokenPoolCreation(address,uint256,bytes)\<close>: \<open>onEvent\<close> applies the
  pool-creation transform to both, and the transform throws, drops the event or
  produces a \<open>token-pool\<close> notification on the same events whichever of the two
  signatures the event carries.
\<close>

theorem onEvent_legacy_pool_creation_signature:
  assumes sig: "ev_signature e = tokenCreateEventSignatureOld
                  \<or> ev_signature e = tokenCreateEventSignature"
  shows "onEvent h query l subName e =
           (l, case ev_data e of
                 TokenPoolCreationData d \<Rightarrow>
                   map_sum id (\<lambda>m. [m]) (transformTokenPoolCreationEvent h subName (withData e d))
               | _ \<Rightarrow> Inl TypeError) \<and>
         map_sum id (map_option msg_event)
           (transformTokenPoolCreationEvent h subName
              (pe\<lparr> ev_signature := tokenCreateEventSignatureOld \<rparr>)) =
         map_sum id (map_option msg_event)
           (transformTokenPoolCreationEvent h subName
              (pe\<lparr> ev_signature := tokenCreateEventSignature \<rparr>)) \<and>
         map_sum id (map_option msg_event) (transformTokenPoolCreationEvent h subName pe)
           \<in> range Inl \<union> {Inr None, Inr (Some ''token-pool'')}"
proof -
  have a: "onEvent h query l subName e =
           (l, case ev_data e of
                 TokenPoolCreationData d \<Rightarrow>
                   map_sum id (\<lambda>m. [m]) (transformTokenPoolCreationEvent h subName (withData e d))
               | _ \<Rightarrow> Inl TypeError)"
    using sig by (auto simp: onEvent_def split: event_data.splits)
  have b: "map_sum id (map_option msg_event)
           (transformTokenPoolCreationEvent h subName
              (pe\<lparr> ev_signature := tokenCreateEventSignatureOld \<rparr>)) =
         map_sum id (map_option msg_event)
           (transformTokenPoolCreationEvent h subName
              (pe\<lparr> ev_signature := tokenCreateEventSignature \<rparr>))"
    by (auto simp: transformTokenPoolCreationEvent_def Let_def
             split: sum.splits option.splits)
  have c: "map_sum id (map_option msg_event) (transformTokenPoolCreationEvent h subName pe)
           \<in> range Inl \<union> {Inr None, Inr (Some ''token-pool'')}"
    by (auto simp: transformTokenPoolCreationEvent_def Let_def
             split: sum.splits option.splits)
  from a b c show ?thesis by blast
qed

theorem onEvent_legacy_pool_creation_signature_witness:
  "\<exists>m. onEvent sampleHelpers (\<lambda>k. None) sampleListener ''base:TokenPoolCreation''
     (sampleEvent tokenCreateEventSignatureOld ''0''
        (TokenPoolCreationData
           \<lparr> tpc_operator = ''0xop'', tpc_type_id = idN1, tpc_data = Some ''0x6162'' \<rparr>))
     = (sampleListener, Inr [Some m]) \<and> msg_event m = ''token-pool''"
proof -
  let ?d = "\<lparr> tpc_operator = ''0xop'', tpc_type_id = idN1, tpc_data = Some ''0x6162'' \<rparr>"
  let ?e = "sampleEvent tokenCreateEventSignatureOld ''0'' (TokenPoolCreationData ?d)"
  have sig: "ev_signature ?e = tokenCreateEventSignatureOld
               \<or> ev_signature ?e = tokenCreateEventSignature" by simp
  have t: "\<exists>m. transformTokenPoolCreationEvent sampleHelpers ''base:TokenPoolCreation''
               (withData ?e ?d) = Inr (Some m) \<and> msg_event m = ''token-pool''"
    by (simp add: transformTokenPoolCreationEvent_def Let_def unpackTokenId_idN1
          sample_unpackSubscriptionName sample_unpackPoolLocator BASE_SUBSCRIPTION_NAME_def
          sample_formatBlockchainEventId)
  from onEvent_legacy_pool_creation_signature [OF sig, of sampleHelpers "\<lambda>k. None"
         sampleListener "''base:TokenPoolCreation''"] t
  show ?thesis by auto
qed

section \<open>Properties of the service\<close>

subsection \<open>Minting\<close>

lemma mintLoop_None: "mintLoop engineLimit None r i to = Inr to"
  by (subst mintLoop.simps) simp

lemma mintLoop_Some:
  assumes "length to = i" and "i \<le> maxArrayLength engineLimit"
  shows "mintLoop engineLimit (Some n) r i to =
           (if n \<le> int (maxArrayLength engineLimit) then Inr (to @ replicate (nat n - i) r)
            else Inl RangeError)"
  using assms
proof (induction "maxArrayLength engineLimit - i" arbitrary: i to)
  case 0
  then have i: "i = maxArrayLength engineLimit" by simp
  show ?case
    by (subst mintLoop.simps) (use 0 i in auto)
next
  case (Suc k)
  then have lt: "i < maxArrayLength engineLimit" and k: "k = maxArrayLength engineLimit - Suc i"
    by simp_all
  show ?case
  proof (cases "int i < n")
    case True
    have len: "length (to @ [r]) = Suc i" using Suc.prems by simp
    have le: "Suc i \<le> maxArrayLength engineLimit" using lt by simp
    have rep: "replicate (nat n - i) r = r # replicate (nat n - Suc i) r"
    proof -
      have "nat n - i = Suc (nat n - Suc i)" using True by linarith
      then show ?thesis by simp
    qed
    have "mintLoop engineLimit (Some n) r i to
            = mintLoop engineLimit (Some n) r (Suc i) (to @ [r])"
      by (subst mintLoop.simps) (use True lt Suc.prems in simp)
    also have "\<dots> = (if n \<le> int (maxArrayLength engineLimit)
                       then Inr ((to @ [r]) @ replicate (nat n - Suc i) r)
                       else Inl RangeError)"
      by (rule Suc.hyps(1) [OF k len le])
    finally show ?thesis by (simp add: rep)
  next
    case False
    then have "nat n - i = 0" by simp
    moreover have "n \<le> int (maxArrayLength engineLimit)" using False lt by simp
    ultimately show ?thesis
      by (subst mintLoop.simps) (use False in simp)
  qed
qed

lemma mintLoop_start:
  "mintLoop engineLimit amount r 0 [] =
     (case amount of
        None \<Rightarrow> Inr []
      | Some n \<Rightarrow> if n \<le> int (maxArrayLength engineLimit) then Inr (replicate (nat n) r)
                  else Inl RangeError)"
proof (cases amount)
  case None
  then show ?thesis by (simp add: mintLoop_None)
next
  case (Some n)
  then show ?thesis
    using mintLoop_Some [of "[]" 0 engineLimit n r] by simp
qed

lemma parseInt_2: "parseInt ''2'' = Some 2"
  by (simp add: parseInt_def js_eval Let_def)

lemma parseInt_abc: "parseInt ''abc'' = None"
  by (simp add: parseInt_def js_eval Let_def)

lemma parseInt_minus_3: "parseInt ''-3'' = Some (- 3)"
  by (simp add: parseInt_def js_eval Let_def)

lemma parseInt_4294967296: "parseInt ''4294967296'' = Some 4294967296"
  by (simp add: parseInt_def js_eval Let_def)

lemma packTokenId_N1: "packTokenId ''N1'' None = Inr idN1"
  by (simp add: codec_eval idN1_def decimal_eq_iff)

lemma packTokenId_Nx: "packTokenId ''Nx'' None = Inl SyntaxError"
  by (simp add: codec_eval)

text \<open>
  Claim C10, amended. \<open>mint\<close> submits an invocation when the pool id packs and the array
  of recipients can be built, and none otherwise. For a fungible pool the invocation is
  \<open>mintFungible\<close> with the one recipient in \<open>to\<close> and the one amount in \<open>amounts\<close>. For
  any other pool the amount is read by \<open>parseInt\<close>, and the invocation is
  \<open>mintNonFungible\<close> with no \<open>amounts\<close>: when \<open>parseInt\<close> gives an integer \<open>n\<close> that does
  not exceed the longest length of an array, \<open>to\<close> holds \<open>n\<close> copies of the recipient
  for \<open>0 \<le> n\<close> and is empty for \<open>n < 0\<close>; when \<open>parseInt\<close> gives \<open>NaN\<close>, \<open>to\<close> is
  empty; when \<open>n\<close> exceeds the longest length of an array, nothing is submitted.
\<close>

theorem mint_invocation:
  "fst (mint h engineLimit invoke dto) =
     (case packTokenId (pl_poolId (unpackPoolLocator h (tm_poolLocator dto))) None of
        Inl err \<Rightarrow> []
      | Inr typeId \<Rightarrow>
          if isFungible (pl_poolId (unpackPoolLocator h (tm_poolLocator dto))) then
            [\<lparr> inv_path = ''/mintFungible'', inv_from = tm_signer dto,
               inv_id = tm_requestId dto,
               inv_body =
                 \<lparr> mb_type_id = typeId, mb_to = [tm_to dto],
                   mb_amounts = Some [tm_amount dto],
                   mb_data = encodeHex h (case tm_data dto of None \<Rightarrow> '''' | Some d \<Rightarrow> d) \<rparr> \<rparr>]
          else
            (case parseInt (tm_amount dto) of
               None \<Rightarrow>
                 [\<lparr> inv_path = ''/mintNonFungible'', inv_from = tm_signer dto,
                    inv_id = tm_requestId dto,
                    inv_body =
                      \<lparr> mb_type_id = typeId, mb_to = [], mb_amounts = None,
                        mb_data = encodeHex h (case tm_data dto of None \<Rightarrow> '''' | Some d \<Rightarrow> d) \<rparr> \<rparr>]
             | Some n \<Rightarrow>
                 if n \<le> int (maxArrayLength engineLimit) then
                   [\<lparr> inv_path = ''/mintNonFungible'', inv_from = tm_signer dto,
                      inv_id = tm_requestId dto,
                      inv_body =
                        \<lparr> mb_type_id = typeId, mb_to = replicate (nat n) (tm_to dto),
                          mb_amounts = None,
                          mb_data = encodeHex h (case tm_data dto of None \<Rightarrow> '''' | Some d \<Rightarrow> d) \<rparr> \<rparr>]
                 else []))"
  by (simp add: mint_def Let_def mintLoop_start split: sum.splits option.splits)

text \<open>
  Claim C10, as stated, fails: the amount of a request on a non-fungible pool need not
  be a count. With the amount \<open>abc\<close> (\<open>parseInt\<close> gives \<open>NaN\<close>) and with the amount \<open>-3\<close>,
  \<open>mintNonFungible\<close> is submitted with an empty \<open>to\<close>. With the pool id \<open>Nx\<close>, which
  does not pack, and with the amount \<open>4294967296\<close>, one more than the longest array of
  the language, nothing is submitted and \<open>mint\<close> throws. The engine is one that builds
  the longest arrays of the language.
\<close>

theorem mint_amount_not_a_count:
  "parseInt ''abc'' = None \<and>
   fst (mint sampleHelpers 4294967295 (\<lambda>r. Inr ''1'')
          \<lparr> tm_poolLocator = ''N1'', tm_signer = ''0x1'', tm_requestId = None,
            tm_to = ''0xABC'', tm_amount = ''abc'', tm_data = None \<rparr>) =
     [\<lparr> inv_path = ''/mintNonFungible'', inv_from = ''0x1'', inv_id = None,
        inv_body = \<lparr> mb_type_id = idN1, mb_to = [], mb_amounts = None,
                     mb_data = ''0x'' \<rparr> \<rparr>] \<and>
   parseInt ''-3'' = Some (- 3) \<and>
   fst (mint sampleHelpers 4294967295 (\<lambda>r. Inr ''1'')
          \<lparr> tm_poolLocator = ''N1'', tm_signer = ''0x1'', tm_requestId = None,
            tm_to = ''0xABC'', tm_amount = ''-3'', tm_data = None \<rparr>) =
     [\<lparr> inv_path = ''/mintNonFungible'', inv_from = ''0x1'', inv_id = None,
        inv_body = \<lparr> mb_type_id = idN1, mb_to = [], mb_amounts = None,
                     mb_data = ''0x'' \<rparr> \<rparr>] \<and>
   mint sampleHelpers 4294967295 (\<lambda>r. Inr ''1'')
     \<lparr> tm_poolLocator = ''Nx'', tm_signer = ''0x1'', tm_requestId = None,
       tm_to = ''0xABC'', tm_amount = ''2'', tm_data = None \<rparr> = ([], Inl SyntaxError) \<and>
   parseInt ''4294967296'' = Some 4294967296 \<and>
   mint sampleHelpers 4294967295 (\<lambda>r. Inr ''1'')
     \<lparr> tm_poolLocator = ''N1'', tm_signer = ''0x1'', tm_requestId = None,
       tm_to = ''0xABC'', tm_amount = ''4294967296'', tm_data = None \<rparr>
   = ([], Inl RangeError)"
proof -
  have enc: "encodeHex sampleHelpers '''' = ''0x''"
    by (simp add: encodeHex_def bufferToHex_def sampleHelpers_def)
  have nf: "\<not> isFungible ''N1''" "\<not> isFungible ''Nx''"
    by (simp_all add: isFungible_def)
  have a: "fst (mint sampleHelpers 4294967295 (\<lambda>r. Inr ''1'')
             \<lparr> tm_poolLocator = ''N1'', tm_signer = ''0x1'', tm_requestId = None,
               tm_to = ''0xABC'', tm_amount = ''abc'', tm_data = None \<rparr>) =
        [\<lparr> inv_path = ''/mintNonFungible'', inv_from = ''0x1'', inv_id = None,
           inv_body = \<lparr> mb_type_id = idN1, mb_to = [], mb_amounts = None,
                        mb_data = ''0x'' \<rparr> \<rparr>]"
    by (simp add: mint_def Let_def sample_unpackPoolLocator packTokenId_N1 nf parseInt_abc
          mintLoop_None enc)
  have b: "fst (mint sampleHelpers 4294967295 (\<lambda>r. Inr ''1'')
             \<lparr> tm_poolLocator = ''N1'', tm_signer = ''0x1'', tm_requestId = None,
               tm_to = ''0xABC'', tm_amount = ''-3'', tm_data = None \<rparr>) =
        [\<lparr> inv_path = ''/mintNonFungible'', inv_from = ''0x1'', inv_id = None,
           inv_body = \<lparr> mb_type_id = idN1, mb_to = [], mb_amounts = None,
                        mb_data = ''0x'' \<rparr> \<rparr>]"
    by (simp add: mint_def Let_def sample_unpackPoolLocator packTokenId_N1 nf parseInt_minus_3
          mintLoop_start enc)
  have c: "mint sampleHelpers 4294967295 (\<lambda>r. Inr ''1'')
        \<lparr> tm_poolLocator = ''Nx'', tm_signer = ''0x1'', tm_requestId = None,
          tm_to = ''0xABC'', tm_amount = ''2'', tm_data = None \<rparr> = ([], Inl SyntaxError)"
    by (simp add: mint_def Let_def sample_unpackPoolLocator packTokenId_Nx)
  have d: "mint sampleHelpers 4294967295 (\<lambda>r. Inr ''1'')
        \<lparr> tm_poolLocator = ''N1'', tm_signer = ''0x1'', tm_requestId = None,
          tm_to = ''0xABC'', tm_amount = ''4294967296'', tm_data = None \<rparr>
      = ([], Inl RangeError)"
    by (simp add: mint_def Let_def sample_unpackPoolLocator packTokenId_N1 nf
          parseInt_4294967296 mintLoop_start maxArrayLength_def)
  from a b c d parseInt_abc parseInt_minus_3 parseInt_4294967296 show ?thesis
    by (simp only: simp_thms)
qed

theorem mint_invocation_witness:
  "fst (mint sampleHelpers 112813858 (\<lambda>r. Inr ''1'')
          \<lparr> tm_poolLocator = ''N1'', tm_signer = ''0x1'', tm_requestId = None,
            tm_to = ''0xABC'', tm_amount = ''2'', tm_data = None \<rparr>) =
     [\<lparr> inv_path = ''/mintNonFungible'', inv_from = ''0x1'', inv_id = None,
        inv_body = \<lparr> mb_type_id = idN1, mb_to = [''0xABC'', ''0xABC''], mb_amounts = None,
                     mb_data = ''0x'' \<rparr> \<rparr>]"
  using mint_invocation [of sampleHelpers 112813858 "\<lambda>r. Inr ''1''"
          "\<lparr> tm_poolLocator = ''N1'', tm_signer = ''0x1'', tm_requestId = None,
             tm_to = ''0xABC'', tm_amount = ''2'', tm_data = None \<rparr>"]
  by (simp add: sample_unpackPoolLocator packTokenId_N1 isFungible_def parseInt_2 encodeHex_def
        bufferToHex_def sampleHelpers_def numeral_2_eq_2 maxArrayLength_def)

subsection \<open>The migration check\<close>






lemma groupEvents_Nil [simp]: "groupEvents key event [] k = []"
  by (simp add: groupEvents_def List.map_filter_def)















lemmas migration_eval = existingStream_def discoveredStream_def findStream_def
  poolSubscriptions_def
  sampleHelpers_def sampleService_def sampleStream_def sampleSubscription_def
  unparseable_def poolKey_def eventOf_def groupKeys_def groupEvents_def
  List.map_filter_def exactlyExpected_def ALL_SUBSCRIBED_EVENTS_def
  tokenCreateEvent_def transferSingleEvent_def transferBatchEvent_def
  approvalForAllEvent_def BASE_SUBSCRIPTION_NAME_def Let_def


text \<open>
  In the remaining case (no stream under the current name, a stream under the bare topic
  prefix) the first service logs the stream under the bare prefix as the one in use
  and then replaces it by the lookup of the other legacy name: with that stream alone
  and a subscription whose name does not parse, it settles on no stream and reports
  no drift.
\<close>

lemma migrationCheck_bare_prefix_stream:
  "discoveredStream sampleHelpers sampleService None [\<lparr> es_id = ''es1'', es_name = ''t'' \<rparr>]
     = Some \<lparr> es_id = ''es1'', es_name = ''t'' \<rparr> \<and>
   existingStream sampleHelpers sampleService None [\<lparr> es_id = ''es1'', es_name = ''t'' \<rparr>]
     = None \<and>
   \<not> snd (migrationCheck sampleHelpers sampleService None
            [\<lparr> es_id = ''es1'', es_name = ''t'' \<rparr>] [sampleSubscription ''legacy''])"
  by (simp add: migrationCheck_def migration_eval)




end
